theory Spec2Isabelle
  imports Complex_Main "HOL-Library.Char_ord" "HOL-Library.List_Lexorder"
    "HOL-Library.Product_Lexorder" "HOL-Library.Log_Nat"
begin

section \<open>Contract documents\<close>

text \<open>
  A contract is a Firestore document read as \<^verbatim>\<open>any\<close>: every field may be absent.
  An absent field is \<open>None\<close>. The dashboard's \<^verbatim>\<open>Contract\<close> and the calendar's
  \<^verbatim>\<open>ContractItem\<close> are two views of the same document; the record has the fields
  that the functions below read, \<^verbatim>\<open>formSnapshot.cartItems\<close> as \<open>cartItems\<close>. Amounts are JavaScript numbers; in a contract they are modelled as
  exact reals (no rounding error, no NaN, no infinity), so \<^verbatim>\<open>x || 0\<close> on a number
  is \<open>x\<close> itself when the field is present. The ledger, further down, rounds its
  sums and differences as the machine does.

  A service line carries its price as a currency-formatted string (\<^verbatim>\<open>"R$ 1.000"\<close>);
  a store item carries a numeric price.
\<close>

record ServiceLine =
  svc_price :: "string option"
  svc_quantity :: "real option"

record StoreItem =
  item_price :: real
  item_quantity :: "real option"

record Contract =
  contract_id :: string
  clientName :: "string option"
  contractDate :: "string option"
  eventDate :: "string option"
  createdAt :: "string option"
  eventTime :: "string option"
  totalAmount :: "real option"
  travelFee :: "real option"
  services :: "ServiceLine list option"
  cartItems :: "ServiceLine list option"
  storeItems :: "StoreItem list option"
  eventCompleted :: "bool option"
  depositPaid :: "bool option"
  finalPaymentPaid :: "bool option"

text \<open>A document with only an id: the starting point of the concrete examples below.\<close>

definition bareContract :: "string \<Rightarrow> Contract" where
  "bareContract i =
     \<lparr>contract_id = i, clientName = None, contractDate = None, eventDate = None,
      createdAt = None, eventTime = None, totalAmount = None, travelFee = None,
      services = None, cartItems = None, storeItems = None, eventCompleted = None,
      depositPaid = None, finalPaymentPaid = None\<rparr>"

section \<open>Amount Deriver\<close>

subsection \<open>Number(String(price).replace(/[^0-9]/g, ''))\<close>

fun positionIn :: "'a \<Rightarrow> 'a list \<Rightarrow> nat option" where
  "positionIn x [] = None"
| "positionIn x (y # ys) = (if x = y then Some 0 else map_option Suc (positionIn x ys))"

text \<open>The value of a decimal digit, \<open>None\<close> for any other character.\<close>

definition digitValue :: "char \<Rightarrow> nat option" where
  "digitValue c = positionIn c ''0123456789''"

definition stripNonDigits :: "string \<Rightarrow> string" where
  "stripNonDigits s = filter (\<lambda>c. digitValue c \<noteq> None) s"

text \<open>\<^verbatim>\<open>Number\<close> of a string of decimal digits; \<^verbatim>\<open>Number('')\<close> is 0.\<close>

definition numberOfDigits :: "string \<Rightarrow> nat" where
  "numberOfDigits ds = foldl (\<lambda>acc c. 10 * acc + (case digitValue c of None \<Rightarrow> 0 | Some v \<Rightarrow> v)) 0 ds"

definition linePrice :: "ServiceLine \<Rightarrow> real" where
  "linePrice it =
     real (numberOfDigits (stripNonDigits (case svc_price it of None \<Rightarrow> [] | Some s \<Rightarrow> s)))"

text \<open>\<^verbatim>\<open>Number(it?.quantity ?? 1)\<close>: only an absent quantity defaults to 1.\<close>

definition lineQty :: "ServiceLine \<Rightarrow> real" where
  "lineQty it = (case svc_quantity it of None \<Rightarrow> 1 | Some q \<Rightarrow> q)"

definition servicesTotalRaw :: "ServiceLine list \<Rightarrow> real" where
  "servicesTotalRaw svcList = foldl (\<lambda>sum it. sum + linePrice it * lineQty it) 0 svcList"

text \<open>\<^verbatim>\<open>Number(it.quantity || 1)\<close>: an absent or zero quantity is 1.\<close>

definition itemQty :: "StoreItem \<Rightarrow> real" where
  "itemQty it = (case item_quantity it of None \<Rightarrow> 1 | Some q \<Rightarrow> if q = 0 then 1 else q)"

definition storeSum :: "StoreItem list \<Rightarrow> real" where
  "storeSum items = foldl (\<lambda>sum it. sum + item_price it * itemQty it) 0 items"

text \<open>
  The service-line list: \<^verbatim>\<open>services\<close> when it is a non-empty array, else
  \<^verbatim>\<open>formSnapshot.cartItems\<close> when that is an array, else the empty list.
\<close>

definition svcList :: "Contract \<Rightarrow> ServiceLine list" where
  "svcList c =
     (case services c of
        Some (x # xs) \<Rightarrow> x # xs
      | _ \<Rightarrow> (case cartItems c of Some l \<Rightarrow> l | None \<Rightarrow> []))"

definition storeTotalOf :: "Contract \<Rightarrow> real" where
  "storeTotalOf c = storeSum (case storeItems c of Some l \<Rightarrow> l | None \<Rightarrow> [])"

definition travelOf :: "Contract \<Rightarrow> real" where
  "travelOf c = (case travelFee c of None \<Rightarrow> 0 | Some v \<Rightarrow> v)"

definition totalFromDoc :: "Contract \<Rightarrow> real" where
  "totalFromDoc c = (case totalAmount c of None \<Rightarrow> 0 | Some v \<Rightarrow> v)"

definition servicesEstimated :: "Contract \<Rightarrow> real" where
  "servicesEstimated c =
     (if servicesTotalRaw (svcList c) > 0 then servicesTotalRaw (svcList c)
      else max 0 (totalFromDoc c - storeTotalOf c - travelOf c))"

text \<open>\<^verbatim>\<open>Math.round\<close> rounds to the nearest integer, a half towards plus infinity.\<close>

definition mathRound :: "real \<Rightarrow> int" where
  "mathRound x = \<lfloor>x + 1 / 2\<rfloor>"

subsection \<open>contractAmounts (financial dashboard)\<close>

record Amounts =
  a_services :: real
  a_storeTotal :: real
  a_travel :: real
  a_total :: int

definition contractAmounts :: "Contract \<Rightarrow> Amounts" where
  "contractAmounts c =
     (let services = servicesEstimated c;
          storeTotal = storeTotalOf c;
          travel = travelOf c;
          total = mathRound (services + storeTotal + travel)
      in \<lparr>a_services = services, a_storeTotal = storeTotal, a_travel = travel,
          a_total = total\<rparr>)"

subsection \<open>computeAmounts (admin calendar)\<close>

record CalendarAmounts =
  servicesTotal :: real
  c_storeTotal :: real
  c_travel :: real
  c_totalAmount :: int
  depositAmount :: int
  remainingAmount :: int

definition computeAmounts :: "Contract \<Rightarrow> CalendarAmounts" where
  "computeAmounts c =
     (let servicesEst = servicesEstimated c;
          storeTotal = storeTotalOf c;
          travel = travelOf c;
          total = mathRound (servicesEst + storeTotal + travel);
          deposit = (if servicesEst \<le> 0 \<and> storeTotal > 0
                     then \<lceil>(storeTotal + travel) * (5 / 10)\<rceil>
                     else \<lceil>servicesEst * (2 / 10) + storeTotal * (5 / 10)\<rceil>);
          remaining = max 0 (mathRound (of_int (total - deposit)))
      in \<lparr>servicesTotal = servicesEst, c_storeTotal = storeTotal, c_travel = travel,
          c_totalAmount = total, depositAmount = deposit, remainingAmount = remaining\<rparr>)"


section \<open>The JavaScript runtime\<close>

text \<open>
  A \<^verbatim>\<open>Date\<close> is its time value: milliseconds since the epoch, an integer. Three things
  come from the runtime and not from the program, and are parameters of the model:
  the parser behind \<^verbatim>\<open>new Date(s)\<close> (\<open>None\<close> is an Invalid Date), the offset of local
  time from UTC in milliseconds (taken as constant: no daylight saving), and the clock.
  \<^verbatim>\<open>setHours\<close>, \<^verbatim>\<open>getFullYear\<close> and \<^verbatim>\<open>getMonth\<close> work on local time.
\<close>

record Runtime =
  parseDate :: "string \<Rightarrow> int option"
  tzOffset :: int
  nowTime :: int

definition msPerDay :: int where
  "msPerDay = 86400000"

definition localDay :: "Runtime \<Rightarrow> int \<Rightarrow> int" where
  "localDay rt t = (t + tzOffset rt) div msPerDay"

text \<open>\<^verbatim>\<open>setHours(0, 0, 0, 0)\<close> and \<^verbatim>\<open>setHours(23, 59, 59, 999)\<close>.\<close>

definition startOfDay :: "Runtime \<Rightarrow> int \<Rightarrow> int" where
  "startOfDay rt t = localDay rt t * msPerDay - tzOffset rt"

definition endOfDay :: "Runtime \<Rightarrow> int \<Rightarrow> int" where
  "endOfDay rt t = startOfDay rt t + (23 * 3600000 + 59 * 60000 + 59 * 1000 + 999)"

text \<open>
  Year and zero-based month of a day number (days since 1970-01-01) in the proleptic
  Gregorian calendar. \<open>civilFromMarch\<close> counts years from 1 March, so that the leap day
  comes last: it gives the March-based year and the month counted from March.
\<close>

definition civilFromMarch :: "int \<Rightarrow> int \<times> int" where
  "civilFromMarch n =
     (let z = n + 719468;
          era = z div 146097;
          doe = z mod 146097;
          yoe = (doe - doe div 1460 + doe div 36524 - doe div 146096) div 365;
          doy = doe - (365 * yoe + yoe div 4 - yoe div 100);
          mp = (5 * doy + 2) div 153
      in (yoe + era * 400, mp))"

definition monthOfDay :: "int \<Rightarrow> nat" where
  "monthOfDay n = nat ((snd (civilFromMarch n) + 2) mod 12)"

definition yearOfDay :: "int \<Rightarrow> int" where
  "yearOfDay n = fst (civilFromMarch n) + (if monthOfDay n < 2 then 1 else 0)"

definition getFullYear :: "Runtime \<Rightarrow> int \<Rightarrow> int" where
  "getFullYear rt t = yearOfDay (localDay rt t)"

definition getMonth :: "Runtime \<Rightarrow> int \<Rightarrow> nat" where
  "getMonth rt t = monthOfDay (localDay rt t)"

subsection \<open>ISO date strings\<close>

text \<open>
  The concrete examples need a parser. The application writes two forms of date string:
  the value of a date input (\<^verbatim>\<open>YYYY-MM-DD\<close>) and \<^verbatim>\<open>toISOString()\<close>
  (\<^verbatim>\<open>YYYY-MM-DDTHH:mm:ss.sssZ\<close>). ECMAScript reads both as UTC. \<open>isoParse\<close> reads these
  two forms and nothing else.
\<close>

definition decimalField :: "string \<Rightarrow> int option" where
  "decimalField s =
     (if s \<noteq> [] \<and> list_all (\<lambda>c. digitValue c \<noteq> None) s then Some (int (numberOfDigits s))
      else None)"

definition isLeapYear :: "int \<Rightarrow> bool" where
  "isLeapYear y = (y mod 4 = 0 \<and> (y mod 100 \<noteq> 0 \<or> y mod 400 = 0))"

definition daysInMonth :: "int \<Rightarrow> int \<Rightarrow> int" where
  "daysInMonth y m =
     (if m = 2 then (if isLeapYear y then 29 else 28)
      else if m = 4 \<or> m = 6 \<or> m = 9 \<or> m = 11 then 30 else 31)"

definition daysFromCivil :: "int \<Rightarrow> int \<Rightarrow> int \<Rightarrow> int" where
  "daysFromCivil y m d =
     (let y' = (if m \<le> 2 then y - 1 else y);
          era = y' div 400;
          yoe = y' mod 400;
          doy = (153 * (if m > 2 then m - 3 else m + 9) + 2) div 5 + d - 1;
          doe = yoe * 365 + yoe div 4 - yoe div 100 + doy
      in era * 146097 + doe - 719468)"

definition isoTimeOfDay :: "string \<Rightarrow> int option" where
  "isoTimeOfDay r =
     (case (decimalField (take 2 (drop 1 r)), decimalField (take 2 (drop 4 r)),
            decimalField (take 2 (drop 7 r)), decimalField (take 3 (drop 10 r))) of
        (Some h, Some mi, Some sec, Some ms) \<Rightarrow>
          if length r = 14 \<and> take 1 r = ''T'' \<and> take 1 (drop 3 r) = '':''
             \<and> take 1 (drop 6 r) = '':'' \<and> take 1 (drop 9 r) = ''.''
             \<and> drop 13 r = ''Z'' \<and> h < 24 \<and> mi < 60 \<and> sec < 60
          then Some (h * 3600000 + mi * 60000 + sec * 1000 + ms)
          else None
      | _ \<Rightarrow> None)"

definition isoParse :: "string \<Rightarrow> int option" where
  "isoParse s =
     (case (decimalField (take 4 s), decimalField (take 2 (drop 5 s)),
            decimalField (take 2 (drop 8 s))) of
        (Some y, Some m, Some d) \<Rightarrow>
          if take 1 (drop 4 s) = ''-'' \<and> take 1 (drop 7 s) = ''-''
             \<and> 1 \<le> m \<and> m \<le> 12 \<and> 1 \<le> d \<and> d \<le> daysInMonth y m
          then (if length s = 10 then Some (daysFromCivil y m d * msPerDay)
                else (case isoTimeOfDay (drop 10 s) of
                        Some ms \<Rightarrow> Some (daysFromCivil y m d * msPerDay + ms)
                      | None \<Rightarrow> None))
          else None
      | _ \<Rightarrow> None)"

section \<open>Period Filter\<close>

datatype PeriodType = PAll | PYear | PMonth | PCustom

record Period =
  period_type :: PeriodType
  period_start :: "string option"
  period_end :: "string option"

text \<open>A string is truthy when it is present and not empty; \<^verbatim>\<open>a || b\<close> on strings.\<close>

definition truthy :: "string option \<Rightarrow> bool" where
  "truthy s = (s \<noteq> None \<and> s \<noteq> Some [])"


text \<open>
  \<^verbatim>\<open>period.start ? new Date(period.start) : null\<close>. An unset bound (\<^verbatim>\<open>null\<close>) and an
  Invalid Date are both \<open>None\<close>: the comparisons \<^verbatim>\<open>d < start\<close> and \<^verbatim>\<open>d > ed\<close> with an
  Invalid Date are false, so neither constrains the date.
\<close>

definition boundDate :: "Runtime \<Rightarrow> string option \<Rightarrow> int option" where
  "boundDate rt b = (case b of None \<Rightarrow> None | Some s \<Rightarrow> if s = [] then None else parseDate rt s)"

text \<open>
  \<^verbatim>\<open>isInPeriod\<close> is written twice in the source, in the dashboard component and inside
  \<^verbatim>\<open>computeMonthlyData\<close>, with the same text; this is both.
\<close>

definition isInPeriod :: "Runtime \<Rightarrow> Period \<Rightarrow> string option \<Rightarrow> bool" where
  "isInPeriod rt period dateStr =
     (case dateStr of
        None \<Rightarrow> False
      | Some s \<Rightarrow>
          if s = [] then False
          else (case parseDate rt s of
                  None \<Rightarrow> False
                | Some d \<Rightarrow>
                    (case period_type period of
                       PAll \<Rightarrow> True
                     | PYear \<Rightarrow> getFullYear rt d = getFullYear rt (nowTime rt)
                     | PMonth \<Rightarrow>
                         getFullYear rt d = getFullYear rt (nowTime rt)
                         \<and> getMonth rt d = getMonth rt (nowTime rt)
                     | PCustom \<Rightarrow>
                         (let start = boundDate rt (period_start period);
                              end' = boundDate rt (period_end period)
                          in if (case start of Some st \<Rightarrow> d < st | None \<Rightarrow> False) then False
                             else if (case end' of Some e \<Rightarrow> d > endOfDay rt e | None \<Rightarrow> False)
                               then False
                             else True))))"





section \<open>Monthly Aggregator\<close>








section \<open>Sorting with a comparator\<close>

text \<open>
  \<^verbatim>\<open>Array.prototype.sort\<close> is stable. \<open>le a b\<close> says that the comparator is not
  positive on \<open>(a, b)\<close>: \<open>a\<close> may stay before \<open>b\<close>.
\<close>

fun insertBy :: "('a \<Rightarrow> 'a \<Rightarrow> bool) \<Rightarrow> 'a \<Rightarrow> 'a list \<Rightarrow> 'a list" where
  "insertBy le x [] = [x]"
| "insertBy le x (y # ys) = (if le x y then x # y # ys else y # insertBy le x ys)"

definition sortBy :: "('a \<Rightarrow> 'a \<Rightarrow> bool) \<Rightarrow> 'a list \<Rightarrow> 'a list" where
  "sortBy le xs = foldr (insertBy le) xs []"

section \<open>Financial Metrics Reducer\<close>

datatype InvoiceStatus = Vencido | Pendiente


text \<open>A \<^verbatim>\<open>Map\<close> keeps its keys in insertion order: an association list.\<close>

fun mapSet :: "'k \<Rightarrow> 'v \<Rightarrow> ('k \<times> 'v) list \<Rightarrow> ('k \<times> 'v) list" where
  "mapSet k v [] = [(k, v)]"
| "mapSet k v (p # ps) = (if fst p = k then (k, v) # ps else p # mapSet k v ps)"









section \<open>Day Bucketer\<close>

text \<open>
  \<^verbatim>\<open>Number\<close> on the parts of a time string and \<^verbatim>\<open>localeCompare\<close> belong to the
  runtime. \<open>num s\<close> is \<^verbatim>\<open>Number(s)\<close> when that is finite and \<open>None\<close> otherwise;
  \<open>collate\<close> maps a string to its collation key, and \<^verbatim>\<open>localeCompare\<close> compares keys.
\<close>

fun splitOn :: "char \<Rightarrow> string \<Rightarrow> string list" where
  "splitOn sep [] = [[]]"
| "splitOn sep (c # cs) =
     (if c = sep then [] # splitOn sep cs
      else (case splitOn sep cs of p # ps \<Rightarrow> (c # p) # ps | [] \<Rightarrow> [[c]]))"

definition toMinutes :: "(string \<Rightarrow> real option) \<Rightarrow> string option \<Rightarrow> real" where
  "toMinutes num t =
     (case t of
        None \<Rightarrow> 0
      | Some s \<Rightarrow>
          if s = [] then 0
          else (let parts = splitOn CHR '':'' s;
                    h = (case parts of p # _ \<Rightarrow> num p | [] \<Rightarrow> None);
                    m = (case parts of _ # p # _ \<Rightarrow> num p | _ \<Rightarrow> None)
                in (case h of Some v \<Rightarrow> v | None \<Rightarrow> 0) * 60
                   + (case m of Some v \<Rightarrow> v | None \<Rightarrow> 0)))"

definition localeCompare :: "(string \<Rightarrow> 'k::linorder) \<Rightarrow> string \<Rightarrow> string \<Rightarrow> real" where
  "localeCompare collate a b =
     (if collate a < collate b then - 1 else if collate a = collate b then 0 else 1)"

text \<open>\<^verbatim>\<open>String(a.clientName || '')\<close>.\<close>

definition nameOf :: "Contract \<Rightarrow> string" where
  "nameOf ev = (case clientName ev of Some s \<Rightarrow> s | None \<Rightarrow> [])"

definition eventCompare ::
  "(string \<Rightarrow> real option) \<Rightarrow> (string \<Rightarrow> 'k::linorder) \<Rightarrow> Contract \<Rightarrow> Contract \<Rightarrow> real" where
  "eventCompare num collate a b =
     (let ta = toMinutes num (eventTime a);
          tb = toMinutes num (eventTime b)
      in if ta \<noteq> tb then ta - tb else localeCompare collate (nameOf a) (nameOf b))"

definition addToDay :: "(string \<times> Contract list) list \<Rightarrow> Contract \<Rightarrow> (string \<times> Contract list) list" where
  "addToDay m ev =
     (case eventDate ev of
        None \<Rightarrow> m
      | Some k \<Rightarrow>
          if k = [] then m
          else mapSet k ((case map_of m k of Some l \<Rightarrow> l | None \<Rightarrow> []) @ [ev]) m)"

definition eventsByDay ::
  "(string \<Rightarrow> real option) \<Rightarrow> (string \<Rightarrow> 'k::linorder) \<Rightarrow> Contract list
     \<Rightarrow> (string \<times> Contract list) list" where
  "eventsByDay num collate filteredEvents =
     map (\<lambda>(k, l). (k, sortBy (\<lambda>a b. eventCompare num collate a b \<le> 0) l))
       (foldl addToDay [] filteredEvents)"

text \<open>\<^verbatim>\<open>Number\<close> on a string of decimal digits (the empty string is 0), for the examples.\<close>

definition plainNumber :: "string \<Rightarrow> real option" where
  "plainNumber s =
     (if list_all (\<lambda>c. digitValue c \<noteq> None) s then Some (real (numberOfDigits s)) else None)"

section \<open>Event summary\<close>

record Summary =
  pending :: nat
  editing :: nat
  completed :: nat

definition summaryStep :: "Summary \<Rightarrow> Contract \<Rightarrow> Summary" where
  "summaryStep acc ev =
     (if depositPaid ev \<noteq> Some True then acc\<lparr>pending := pending acc + 1\<rparr>
      else if depositPaid ev = Some True \<and> finalPaymentPaid ev = Some True
              \<and> eventCompleted ev \<noteq> Some True
        then acc\<lparr>editing := editing acc + 1\<rparr>
      else if depositPaid ev = Some True \<and> finalPaymentPaid ev = Some True
              \<and> eventCompleted ev = Some True
        then acc\<lparr>completed := completed acc + 1\<rparr>
      else acc)"

record EventSummary =
  es_pending :: nat
  es_editing :: nat
  es_completed :: nat
  es_allTotal :: nat
  es_total :: nat

definition eventSummary :: "Contract list \<Rightarrow> EventSummary" where
  "eventSummary filteredEvents =
     (let acc = foldl summaryStep \<lparr>pending = 0, editing = 0, completed = 0\<rparr> filteredEvents
      in \<lparr>es_pending = pending acc, es_editing = editing acc, es_completed = completed acc,
          es_allTotal = length filteredEvents,
          es_total = pending acc + editing acc + completed acc\<rparr>)"


section \<open>Double-precision arithmetic\<close>

text \<open>
  The ledger adds and subtracts amounts that the user types with cents, so there the
  rounding of JavaScript numbers matters. A number is an IEEE 754 binary64 value, here
  the real it denotes, and every sum and difference is rounded to the nearest such
  value, a tie going to the even significand. \<open>binade x\<close> is the exponent of the power
  of two at or below a positive \<open>x\<close>; the unit in the last place is 52 binary places
  below it, and not below \<open>2 ^ - 1074\<close> (subnormal numbers). Results beyond the largest
  finite value are not modelled (the source has \<^verbatim>\<open>Infinity\<close> there).
\<close>

definition scaleBy :: "int \<Rightarrow> real \<Rightarrow> real" where
  "scaleBy k x = (if 0 \<le> k then x * 2 ^ nat k else x / 2 ^ nat (- k))"

definition halfEven :: "real \<Rightarrow> int" where
  "halfEven y =
     (let f = \<lfloor>y\<rfloor>; r = y - of_int f
      in if r < 1 / 2 then f else if 1 / 2 < r then f + 1 else if even f then f else f + 1)"

definition binade :: "real \<Rightarrow> int" where
  "binade x = (if 1 \<le> x then bitlen \<lfloor>x\<rfloor> - 1 else - bitlen (\<lceil>1 / x\<rceil> - 1))"

definition ulpExponent :: "real \<Rightarrow> int" where
  "ulpExponent x = max (- 1074) (binade \<bar>x\<bar> - 52)"

definition roundDouble :: "real \<Rightarrow> real" where
  "roundDouble x = scaleBy (ulpExponent x) (of_int (halfEven (scaleBy (- ulpExponent x) x)))"

text \<open>\<^verbatim>\<open>x + y\<close> and \<^verbatim>\<open>x - y\<close> on numbers.\<close>

definition dadd :: "real \<Rightarrow> real \<Rightarrow> real" where
  "dadd x y = roundDouble (x + y)"

definition dsub :: "real \<Rightarrow> real \<Rightarrow> real" where
  "dsub x y = roundDouble (x - y)"

section \<open>Budget Envelope Ledger\<close>

text \<open>
  The document store holds two collections, each a list of documents under their ids.
  The component keeps a view, \<^verbatim>\<open>budgetData\<close>, that \<^verbatim>\<open>loadBudgetData\<close> fills from the
  store. The handlers read the view and write the store; when they have written they
  call \<^verbatim>\<open>loadBudgetData\<close> and return without waiting for it, so the load is a step of
  its own. Every read and write can fail: \<open>Network\<close> says which of them succeed during
  one handler call or one load. The numeric fields of an envelope document are present
  (the source reads an absent one as 0). The view lists the transactions in the order of
  the store (the source asks for them by date, which changes only the order shown).
\<close>

record EnvelopeDoc =
  doc_name :: string
  doc_percentage :: real
  doc_allocated :: real
  doc_spent :: real

datatype TxType = Income | Expense

record TransactionDoc =
  tx_date :: string
  tx_description :: string
  tx_category :: string
  tx_type :: TxType
  tx_amount :: real
  tx_envelopeId :: "string option"

record Store =
  budget_envelopes :: "(string \<times> EnvelopeDoc) list"
  budget_transactions :: "(string \<times> TransactionDoc) list"

record Envelope =
  env_id :: string
  env_name :: string
  percentage :: real
  allocated :: real
  spent :: real
  available :: real

record BudgetData =
  totalAvailable :: real
  totalAllocated :: real
  totalSpent :: real
  envelopes :: "Envelope list"
  transactions :: "(string \<times> TransactionDoc) list"

record Network =
  online :: bool
  readsEnvelopes :: bool
  readsTransactions :: bool
  addDocOk :: bool
  updateDocOk :: bool
  deleteDocOk :: bool

text \<open>The store within reach: every read and write succeeds.\<close>

definition reachable :: Network where
  "reachable =
     \<lparr>online = True, readsEnvelopes = True, readsTransactions = True, addDocOk = True,
      updateDocOk = True, deleteDocOk = True\<rparr>"

text \<open>The view before the first load: the initial state of the component.\<close>

definition noData :: BudgetData where
  "noData =
     \<lparr>totalAvailable = 0, totalAllocated = 0, totalSpent = 0, envelopes = [],
      transactions = []\<rparr>"

text \<open>
  \<^verbatim>\<open>loadBudgetData\<close>: offline it returns and the view stays; a collection that cannot be
  read is taken as empty.
\<close>

definition loadBudgetData :: "Network \<Rightarrow> Store \<Rightarrow> BudgetData \<Rightarrow> BudgetData" where
  "loadBudgetData net st view =
     (if \<not> online net then view
      else
        (let envs =
               (if readsEnvelopes net
                then map (\<lambda>(i, d). \<lparr>env_id = i, env_name = doc_name d,
                                       percentage = doc_percentage d,
                                       allocated = doc_allocated d, spent = doc_spent d,
                                       available = dsub (doc_allocated d) (doc_spent d)\<rparr>)
                       (budget_envelopes st)
                else []);
             txs = (if readsTransactions net then budget_transactions st else []);
             totalAllocated' = foldl (\<lambda>sum e. dadd sum (allocated e)) 0 envs;
             totalSpent' = foldl (\<lambda>sum e. dadd sum (spent e)) 0 envs;
             incomeTransactions = filter (\<lambda>t. tx_type (snd t) = Income) txs;
             totalIncome = foldl (\<lambda>sum t. dadd sum (tx_amount (snd t))) 0 incomeTransactions
         in \<lparr>totalAvailable = dsub totalIncome totalSpent', totalAllocated = totalAllocated',
             totalSpent = totalSpent', envelopes = envs, transactions = txs\<rparr>))"

text \<open>
  \<^verbatim>\<open>updateDoc(doc(db, 'budget_envelopes', id), {spent})\<close>: sets the field on the document
  with this id, and fails (\<open>None\<close>) when there is no such document.
\<close>

fun updateSpent ::
  "string \<Rightarrow> real \<Rightarrow> (string \<times> EnvelopeDoc) list \<Rightarrow> (string \<times> EnvelopeDoc) list option" where
  "updateSpent i v [] = None"
| "updateSpent i v (p # ps) =
     (if fst p = i then Some ((i, (snd p)\<lparr>doc_spent := v\<rparr>) # ps)
      else (case updateSpent i v ps of None \<Rightarrow> None | Some ps' \<Rightarrow> Some (p # ps')))"

text \<open>
  What a handler leaves: the store, and whether it called \<^verbatim>\<open>loadBudgetData\<close>.
\<close>

record Outcome =
  out_store :: Store
  out_reload :: bool

text \<open>
  \<^verbatim>\<open>handleAddExpense\<close>. \<open>amountInput\<close> is \<^verbatim>\<open>Number(expenseData.amount)\<close>, \<open>None\<close> when the
  field is empty or not a number; \<open>now\<close> is today's date string and \<open>newId\<close> the id the
  store gives the new transaction. When a guard fails the handler returns and nothing
  changes. A write that fails ends the handler (the \<^verbatim>\<open>catch\<close> shows an alert): after a
  failed envelope update the transaction stays written, the two writes are not atomic.
\<close>

definition handleAddExpense ::
  "Network \<Rightarrow> BudgetData \<Rightarrow> Store \<Rightarrow> real option \<Rightarrow> string \<Rightarrow> string option \<Rightarrow> string
     \<Rightarrow> string \<Rightarrow> Outcome" where
  "handleAddExpense net view st amountInput description selectedEnvelope now newId =
     (case (amountInput, selectedEnvelope) of
        (Some amount, Some sel) \<Rightarrow>
          if sel = [] then \<lparr>out_store = st, out_reload = False\<rparr>
          else if amount \<le> 0 then \<lparr>out_store = st, out_reload = False\<rparr>
          else (case find (\<lambda>e. env_id e = sel) (envelopes view) of
                  None \<Rightarrow> \<lparr>out_store = st, out_reload = False\<rparr>
                | Some envelope \<Rightarrow>
                    if \<not> addDocOk net then \<lparr>out_store = st, out_reload = False\<rparr>
                    else
                      (let st1 = st\<lparr>budget_transactions :=
                                   budget_transactions st @
                                     [(newId,
                                       \<lparr>tx_date = now,
                                        tx_description =
                                          (if description = [] then ''Gasto'' else description),
                                        tx_category = env_name envelope, tx_type = Expense,
                                        tx_amount = amount, tx_envelopeId = Some sel\<rparr>)]\<rparr>;
                           newSpent = dadd (spent envelope) amount
                       in (case (if updateDocOk net
                                 then updateSpent sel newSpent (budget_envelopes st1)
                                 else None) of
                             None \<Rightarrow> \<lparr>out_store = st1, out_reload = False\<rparr>
                           | Some envs \<Rightarrow>
                               \<lparr>out_store = st1\<lparr>budget_envelopes := envs\<rparr>,
                                out_reload = True\<rparr>)))
      | _ \<Rightarrow> \<lparr>out_store = st, out_reload = False\<rparr>)"

text \<open>
  \<^verbatim>\<open>handleDeleteTransaction\<close>. \<open>confirmed\<close> is the answer to the confirmation dialog.
\<close>

definition handleDeleteTransaction ::
  "Network \<Rightarrow> BudgetData \<Rightarrow> Store \<Rightarrow> bool \<Rightarrow> string \<Rightarrow> Outcome" where
  "handleDeleteTransaction net view st confirmed i =
     (if \<not> confirmed then \<lparr>out_store = st, out_reload = False\<rparr>
      else
        (let refund =
               (case find (\<lambda>t. fst t = i) (transactions view) of
                  None \<Rightarrow> None
                | Some t \<Rightarrow>
                    if truthy (tx_envelopeId (snd t)) \<and> tx_type (snd t) = Expense
                    then (case tx_envelopeId (snd t) of
                            None \<Rightarrow> None
                          | Some eid \<Rightarrow>
                              (case find (\<lambda>e. env_id e = eid) (envelopes view) of
                                 None \<Rightarrow> None
                               | Some envelope \<Rightarrow>
                                   Some (eid, max 0 (dsub (spent envelope) (tx_amount (snd t))))))
                    else None);
             updated =
               (case refund of
                  None \<Rightarrow> Some st
                | Some (eid, newSpent) \<Rightarrow>
                    (case (if updateDocOk net
                           then updateSpent eid newSpent (budget_envelopes st)
                           else None) of
                       None \<Rightarrow> None
                     | Some envs \<Rightarrow> Some (st\<lparr>budget_envelopes := envs\<rparr>)))
         in (case updated of
               None \<Rightarrow> \<lparr>out_store = st, out_reload = False\<rparr>
             | Some st1 \<Rightarrow>
                 if \<not> deleteDocOk net then \<lparr>out_store = st1, out_reload = False\<rparr>
                 else \<lparr>out_store = st1\<lparr>budget_transactions :=
                                       filter (\<lambda>t. fst t \<noteq> i) (budget_transactions st1)\<rparr>,
                       out_reload = True\<rparr>)))"

text \<open>
  Adding an expense and then deleting the transaction it created: the add reads the
  view \<open>view0\<close>; the load it calls, under \<open>load1\<close>, gives the view in which the new
  transaction can be chosen; the delete reads that view.
\<close>

definition addThenDelete ::
  "Network \<Rightarrow> Network \<Rightarrow> Network \<Rightarrow> BudgetData \<Rightarrow> Store \<Rightarrow> real \<Rightarrow> string \<Rightarrow> string
     \<Rightarrow> string \<Rightarrow> string \<Rightarrow> Store" where
  "addThenDelete net1 load1 net2 view0 st0 amount description eid now newId =
     (let o1 = handleAddExpense net1 view0 st0 (Some amount) description (Some eid) now newId;
          view1 = (if out_reload o1 then loadBudgetData load1 (out_store o1) view0 else view0);
          o2 = handleDeleteTransaction net2 view1 (out_store o1) True newId
      in out_store o2)"

text \<open>The envelope with a given id as a successful load shows it.\<close>

definition shownEnvelope :: "Store \<Rightarrow> string \<Rightarrow> Envelope option" where
  "shownEnvelope st eid =
     find (\<lambda>e. env_id e = eid) (envelopes (loadBudgetData reachable st noData))"

section \<open>Example documents\<close>

text \<open>The first scenario of the specification: one service line and a travel fee.\<close>

definition scenarioContract :: Contract where
  "scenarioContract =
     (bareContract ''c1'')\<lparr>travelFee := Some 100,
        services := Some [\<lparr>svc_price = Some ''R$ 1.000'', svc_quantity = Some 1\<rparr>]\<rparr>"

text \<open>A store order with a travel fee and no service line.\<close>

definition storeTravelContract :: Contract where
  "storeTravelContract =
     (bareContract ''c2'')\<lparr>travelFee := Some 50,
        storeItems := Some [\<lparr>item_price = 100, item_quantity = Some 1\<rparr>]\<rparr>"

text \<open>A travel fee used as a discount: a negative number.\<close>

definition discountContract :: Contract where
  "discountContract =
     (bareContract ''c3'')\<lparr>travelFee := Some (- 1000),
        services := Some [\<lparr>svc_price = Some ''100'', svc_quantity = Some 1\<rparr>]\<rparr>"



text \<open>A service line whose price has no digit, under a stored total \<open>t\<close>.\<close>

definition unpricedContract :: "real \<Rightarrow> Contract" where
  "unpricedContract t =
     (bareContract ''c6'')\<lparr>totalAmount := Some t,
        services := Some [\<lparr>svc_price = Some ''a consultar'', svc_quantity = Some 1\<rparr>]\<rparr>"

text \<open>
  The runtime of the examples: the ISO parser, local time three hours behind UTC
  (\<^verbatim>\<open>America/Sao_Paulo\<close>) and the clock at 2024-01-31 15:00 UTC, which is noon local time.
\<close>

definition saoPaulo :: Runtime where
  "saoPaulo = \<lparr>parseDate = isoParse, tzOffset = - 10800000, nowTime = 1706713200000\<rparr>"

text \<open>The custom period of the specification's scenario, and the period \<^verbatim>\<open>all\<close>.\<close>

definition january2024 :: Period where
  "january2024 =
     \<lparr>period_type = PCustom, period_start = Some ''2024-01-01'',
      period_end = Some ''2024-01-31''\<rparr>"







text \<open>Calendar events: three on one day, one on the next.\<close>

definition calendarEvent :: "string \<Rightarrow> string \<Rightarrow> string \<Rightarrow> string option \<Rightarrow> Contract" where
  "calendarEvent i name day time =
     (bareContract i)\<lparr>clientName := Some name, eventDate := Some day, eventTime := time\<rparr>"

definition evBea :: Contract where
  "evBea = calendarEvent ''e1'' ''Bea'' ''2024-03-10'' (Some ''14:30'')"

definition evCarla :: Contract where
  "evCarla = calendarEvent ''e2'' ''Carla'' ''2024-03-10'' (Some ''09:00'')"

definition evDora :: Contract where
  "evDora = calendarEvent ''e3'' ''Dora'' ''2024-03-11'' None"

definition evAna :: Contract where
  "evAna = calendarEvent ''e4'' ''Ana'' ''2024-03-10'' (Some ''14:30'')"

text \<open>Payment flags: deposit, final payment, completion.\<close>

definition flagged :: "bool option \<Rightarrow> bool option \<Rightarrow> bool option \<Rightarrow> Contract" where
  "flagged d f e =
     (bareContract ''e'')\<lparr>depositPaid := d, finalPaymentPaid := f, eventCompleted := e\<rparr>"

text \<open>
  A collation of the kind \<^verbatim>\<open>localeCompare\<close> uses on unaccented letters: strings compare
  first letter by letter without regard to case, and only at a tie lower case comes
  before upper case. Four events at the same time on one day, named in both cases.
\<close>

definition lowerOf :: "char \<Rightarrow> char" where
  "lowerOf c =
     (case map_of (zip ''ABCDEFGHIJKLMNOPQRSTUVWXYZ'' ''abcdefghijklmnopqrstuvwxyz'') c of
        Some l \<Rightarrow> l
      | None \<Rightarrow> c)"

definition letterKey :: "string \<Rightarrow> string \<times> bool list" where
  "letterKey s = (map lowerOf s, map (\<lambda>c. c \<in> set ''ABCDEFGHIJKLMNOPQRSTUVWXYZ'') s)"

definition evZoe :: Contract where
  "evZoe = calendarEvent ''e5'' ''Zoe'' ''2024-03-10'' (Some ''10:00'')"

definition evUpperAna :: Contract where
  "evUpperAna = calendarEvent ''e6'' ''Ana'' ''2024-03-10'' (Some ''10:00'')"

definition evLowerBea :: Contract where
  "evLowerBea = calendarEvent ''e7'' ''bea'' ''2024-03-10'' (Some ''10:00'')"

definition evLowerAna :: Contract where
  "evLowerAna = calendarEvent ''e8'' ''ana'' ''2024-03-10'' (Some ''10:00'')"

text \<open>The envelope of the specification's scenario: allocated 1000, spent 600.\<close>

definition scenarioStore :: Store where
  "scenarioStore =
     \<lparr>budget_envelopes =
        [(''env1'', \<lparr>doc_name = ''Equipo'', doc_percentage = 40, doc_allocated = 1000,
                     doc_spent = 600\<rparr>)],
      budget_transactions = []\<rparr>"

text \<open>
  \<^verbatim>\<open>Number("0.10")\<close> and \<^verbatim>\<open>Number("0.20")\<close>: the numbers nearest to one tenth and to
  two tenths. Then the same envelope with 0.10 spent, and the same envelope after another
  client has raised \<open>spent\<close> to 700.
\<close>

definition tenCents :: real where
  "tenCents = roundDouble (1 / 10)"

definition twentyCents :: real where
  "twentyCents = roundDouble (2 / 10)"

definition tenthStore :: Store where
  "tenthStore =
     \<lparr>budget_envelopes =
        [(''env1'', \<lparr>doc_name = ''Equipo'', doc_percentage = 40, doc_allocated = 1000,
                     doc_spent = tenCents\<rparr>)],
      budget_transactions = []\<rparr>"

definition movedStore :: Store where
  "movedStore =
     \<lparr>budget_envelopes =
        [(''env1'', \<lparr>doc_name = ''Equipo'', doc_percentage = 40, doc_allocated = 1000,
                     doc_spent = 700\<rparr>)],
      budget_transactions = []\<rparr>"

section \<open>Auxiliary notions\<close>

text \<open>
  The order the comparator of the Day Bucketer decides: earlier time first, and at equal
  times the smaller collation key of the client name first.
\<close>

definition dayOrder ::
  "(string \<Rightarrow> real option) \<Rightarrow> (string \<Rightarrow> 'k::linorder) \<Rightarrow> Contract \<Rightarrow> Contract \<Rightarrow> bool" where
  "dayOrder num collate a b =
     (toMinutes num (eventTime a) < toMinutes num (eventTime b)
      \<or> (toMinutes num (eventTime a) = toMinutes num (eventTime b)
          \<and> collate (nameOf a) \<le> collate (nameOf b)))"

text \<open>The key under which an event is bucketed, if it is bucketed at all.\<close>

definition dayKey :: "Contract \<Rightarrow> string option" where
  "dayKey ev =
     (case eventDate ev of None \<Rightarrow> None | Some k \<Rightarrow> if k = [] then None else Some k)"

text \<open>The view of one envelope document, as \<open>loadBudgetData\<close> builds it.\<close>

definition viewOf :: "string \<times> EnvelopeDoc \<Rightarrow> Envelope" where
  "viewOf p =
     \<lparr>env_id = fst p, env_name = doc_name (snd p), percentage = doc_percentage (snd p),
      allocated = doc_allocated (snd p), spent = doc_spent (snd p),
      available = dsub (doc_allocated (snd p)) (doc_spent (snd p))\<rparr>"

section \<open>Properties of the Amount Deriver\<close>

lemmas amount_defs = computeAmounts_def contractAmounts_def servicesEstimated_def
  svcList_def servicesTotalRaw_def storeTotalOf_def storeSum_def itemQty_def travelOf_def
  totalFromDoc_def mathRound_def linePrice_def lineQty_def stripNonDigits_def
  numberOfDigits_def digitValue_def bareContract_def Let_def

lemma servicesEstimated_nonneg: "0 \<le> servicesEstimated c"
  by (simp add: servicesEstimated_def)






text \<open>
  C1, as the specification states it: the deposit is \<open>ceil(storeTotal \<times> 0.5)\<close> when the
  derived services amount is 0. With a store order of 100 and a travel fee of 50 the
  services amount is 0 and the deposit is 75, not 50: the source takes half of store
  total plus travel in that case.
\<close>

theorem deposit_formula_counterexample:
  "servicesTotal (computeAmounts storeTravelContract) = 0 \<and>
   depositAmount (computeAmounts storeTravelContract) = 75 \<and>
   \<lceil>c_storeTotal (computeAmounts storeTravelContract) * (5 / 10)\<rceil> = 50"
  by (simp add: amount_defs storeTravelContract_def)

text \<open>
  C1, amended: when the derived services amount is 0 and the store total is positive,
  the deposit is \<open>ceil((storeTotal + travel) \<times> 0.5)\<close>; when the services amount is 0 and
  the store total is not positive it is \<open>ceil(storeTotal \<times> 0.5)\<close>; otherwise it is
  \<open>ceil(services \<times> 0.2 + storeTotal \<times> 0.5)\<close>.
\<close>

theorem deposit_formula:
  "depositAmount (computeAmounts c) =
     (if servicesTotal (computeAmounts c) = 0
      then (if c_storeTotal (computeAmounts c) > 0
            then \<lceil>(c_storeTotal (computeAmounts c) + c_travel (computeAmounts c)) * (5 / 10)\<rceil>
            else \<lceil>c_storeTotal (computeAmounts c) * (5 / 10)\<rceil>)
      else \<lceil>servicesTotal (computeAmounts c) * (2 / 10)
             + c_storeTotal (computeAmounts c) * (5 / 10)\<rceil>)"
  using servicesEstimated_nonneg [of c]
  by (simp add: computeAmounts_def Let_def)

theorem deposit_formula_witness:
  "depositAmount (computeAmounts scenarioContract) = 200 \<and>
   depositAmount (computeAmounts storeTravelContract) = 75"
  using deposit_formula [of scenarioContract] deposit_formula [of storeTravelContract]
  by (simp add: amount_defs scenarioContract_def storeTravelContract_def)

text \<open>
  C2, as the specification states it: the derived total is never negative, whatever
  the travel fee. A service of 100 with a travel fee of -1000 has the total -900, in the
  dashboard and in the calendar.
\<close>

theorem total_negative_counterexample:
  "a_total (contractAmounts discountContract) = - 900 \<and>
   c_totalAmount (computeAmounts discountContract) = - 900"
  by (simp add: amount_defs discountContract_def)

text \<open>
  C2, amended: when store total plus travel fee is not negative (so for every contract
  whose travel fee, store prices and store quantities are not negative), the derived
  total is not negative, in \<open>contractAmounts\<close> and in \<open>computeAmounts\<close>.
\<close>

theorem total_nonneg:
  assumes "0 \<le> storeTotalOf c + travelOf c"
  shows "0 \<le> a_total (contractAmounts c) \<and> 0 \<le> c_totalAmount (computeAmounts c)"
  using assms servicesEstimated_nonneg [of c]
  by (simp add: computeAmounts_def contractAmounts_def Let_def mathRound_def)

theorem total_nonneg_witness:
  "0 \<le> storeTotalOf storeTravelContract + travelOf storeTravelContract \<and>
   0 \<le> a_total (contractAmounts storeTravelContract) \<and>
   0 \<le> c_totalAmount (computeAmounts storeTravelContract)"
proof -
  have h: "0 \<le> storeTotalOf storeTravelContract + travelOf storeTravelContract"
    by (simp add: amount_defs storeTravelContract_def)
  from total_nonneg [OF h] h show ?thesis
    by simp
qed




text \<open>
  C4, as the specification states it: with a non-empty list of service lines the derived
  total does not depend on the stored total. A service line whose price has no digit
  sums to 0, and the source then falls back on the stored total: 500 and 1000 give the
  totals 500 and 1000.
\<close>

theorem total_independent_counterexample:
  "svcList (unpricedContract 500) \<noteq> [] \<and>
   unpricedContract 1000 = (unpricedContract 500)\<lparr>totalAmount := Some 1000\<rparr> \<and>
   a_total (contractAmounts (unpricedContract 500)) = 500 \<and>
   a_total (contractAmounts (unpricedContract 1000)) = 1000"
  by (simp add: amount_defs unpricedContract_def)

text \<open>
  C4, amended: two contracts whose service lines sum to a positive amount and which
  differ only in the stored \<open>totalAmount\<close> have the same derived total.
\<close>

theorem total_independent_of_stored:
  assumes "0 < servicesTotalRaw (svcList c)"
  shows "a_total (contractAmounts (c\<lparr>totalAmount := t\<rparr>)) = a_total (contractAmounts c)"
proof -
  let ?c' = "c\<lparr>totalAmount := t\<rparr>"
  have svc: "svcList ?c' = svcList c"
    by (simp add: svcList_def split: option.split list.split)
  have rest: "storeTotalOf ?c' = storeTotalOf c" "travelOf ?c' = travelOf c"
    by (simp_all add: storeTotalOf_def travelOf_def)
  have "servicesEstimated ?c' = servicesTotalRaw (svcList c)"
    using assms by (simp add: servicesEstimated_def svc)
  moreover have "servicesEstimated c = servicesTotalRaw (svcList c)"
    using assms by (simp add: servicesEstimated_def)
  ultimately show ?thesis
    by (simp add: contractAmounts_def Let_def rest)
qed

theorem total_independent_of_stored_witness:
  "0 < servicesTotalRaw (svcList scenarioContract) \<and>
   a_total (contractAmounts (scenarioContract\<lparr>totalAmount := Some 5\<rparr>)) = 1100"
proof -
  have h: "0 < servicesTotalRaw (svcList scenarioContract)"
    by (simp add: amount_defs scenarioContract_def)
  have "a_total (contractAmounts scenarioContract) = 1100"
    by (simp add: amount_defs scenarioContract_def)
  with total_independent_of_stored [OF h, of "Some 5"] h show ?thesis
    by simp
qed


section \<open>Properties of the Period Filter\<close>

lemmas date_defs = isoParse_def isoTimeOfDay_def decimalField_def numberOfDigits_def
  digitValue_def daysInMonth_def isLeapYear_def daysFromCivil_def msPerDay_def Let_def

lemma iso_examples:
  "isoParse ''2024-01-01'' = Some 1704067200000"
  "isoParse ''2024-01-31'' = Some 1706659200000"
  "isoParse ''2024-02-01'' = Some 1706745600000"
  "isoParse ''2024-01-31T12:00:00.000Z'' = Some 1706702400000"
  "isoParse ''2024-01-10'' = Some 1704844800000"
  "isoParse ''2024-01-05'' = Some 1704412800000"
  "isoParse ''2024-02-20'' = Some 1708387200000"
  by (simp_all add: date_defs)

text \<open>
  \<^verbatim>\<open>setHours(23, 59, 59, 999)\<close> moves a time forward, by less than a day, in every time
  zone.
\<close>

lemma endOfDay_bounds: "e \<le> endOfDay rt e \<and> endOfDay rt e < e + msPerDay"
proof -
  define x where "x = e + tzOffset rt"
  define r where "r = x mod 86400000"
  have q: "x div 86400000 * 86400000 = x - r"
    by (simp add: r_def minus_mod_eq_div_mult)
  have r: "0 \<le> r" "r < 86400000"
    by (simp_all add: r_def)
  have "endOfDay rt e = x - r - tzOffset rt + 86399999"
    by (simp add: endOfDay_def startOfDay_def localDay_def msPerDay_def q flip: x_def)
  with r show ?thesis
    by (simp add: x_def msPerDay_def)
qed

text \<open>A date string that does not parse is in no period.\<close>

lemma isInPeriod_unparsable:
  "parseDate rt s = None \<Longrightarrow> isInPeriod rt period (Some s) = False"
  by (simp add: isInPeriod_def)


text \<open>
  The custom period on times: the date is not before the parsed start and not after the
  parsed end moved to 23:59:59.999 of its local day. A bound that is unset, or does not
  parse, does not constrain.
\<close>

lemma isInPeriod_custom:
  assumes "period_type period = PCustom" and "s \<noteq> []" and "parseDate rt s = Some d"
  shows "isInPeriod rt period (Some s) =
     ((case boundDate rt (period_start period) of Some st \<Rightarrow> st \<le> d | None \<Rightarrow> True) \<and>
      (case boundDate rt (period_end period) of Some e \<Rightarrow> d \<le> endOfDay rt e | None \<Rightarrow> True))"
  using assms by (auto simp: isInPeriod_def Let_def split: option.splits)

text \<open>
  Between two UTC midnights, as date-only strings parse, the end of the local day of the
  second decides as the second itself does.
\<close>

lemma midnight_le_endOfDay:
  assumes "msPerDay dvd d" and "msPerDay dvd e"
  shows "(d \<le> endOfDay rt e) = (d \<le> e)"
proof -
  from assms obtain i j where d: "d = msPerDay * i" and e: "e = msPerDay * j"
    by (auto simp: dvd_def)
  have b: "e \<le> endOfDay rt e" "endOfDay rt e < e + msPerDay"
    using endOfDay_bounds by blast+
  show ?thesis
  proof
    assume "d \<le> endOfDay rt e"
    with b have "d < e + msPerDay"
      by linarith
    then have "msPerDay * i < msPerDay * (j + 1)"
      by (simp add: d e algebra_simps)
    then have "i < j + 1"
      by (simp add: msPerDay_def)
    then show "d \<le> e"
      by (simp add: d e msPerDay_def)
  next
    assume "d \<le> e"
    with b show "d \<le> endOfDay rt e"
      by linarith
  qed
qed

text \<open>
  So on date-only strings the custom period compares calendar dates, both bounds
  inclusive, whatever the time zone.
\<close>

lemma custom_date_only:
  assumes "period_type period = PCustom" and "s \<noteq> []" and "parseDate rt s = Some d"
    and "msPerDay dvd d"
    and "\<And>st. boundDate rt (period_start period) = Some st \<Longrightarrow> msPerDay dvd st"
    and "\<And>e. boundDate rt (period_end period) = Some e \<Longrightarrow> msPerDay dvd e"
  shows "isInPeriod rt period (Some s) =
     ((case boundDate rt (period_start period) of Some st \<Rightarrow> st \<le> d | None \<Rightarrow> True) \<and>
      (case boundDate rt (period_end period) of Some e \<Rightarrow> d \<le> e | None \<Rightarrow> True))"
  using assms by (auto simp: isInPeriod_custom midnight_le_endOfDay split: option.splits)

text \<open>
  The scenario of the specification holds in every time zone: with the period from
  2024-01-01 to 2024-01-31, the date 2024-01-31 is in and 2024-02-01 is out.
\<close>

lemma scenario_any_zone:
  assumes "parseDate rt = isoParse"
  shows "isInPeriod rt january2024 (Some ''2024-01-31'')
         \<and> \<not> isInPeriod rt january2024 (Some ''2024-02-01'')"
proof -
  have p: "period_type january2024 = PCustom"
    by (simp add: january2024_def)
  have bs: "boundDate rt (period_start january2024) = Some 1704067200000"
    and be: "boundDate rt (period_end january2024) = Some 1706659200000"
    by (simp_all add: boundDate_def january2024_def assms iso_examples)
  have b: "1706659200000 \<le> endOfDay rt 1706659200000"
    "endOfDay rt 1706659200000 < 1706659200000 + msPerDay"
    using endOfDay_bounds by blast+
  have "isInPeriod rt january2024 (Some ''2024-01-31'')"
    using b
    by (simp add: isInPeriod_custom [OF p, where d = 1706659200000] assms iso_examples bs be)
  moreover have "\<not> isInPeriod rt january2024 (Some ''2024-02-01'')"
    using b
    by (simp add: isInPeriod_custom [OF p, where d = 1706745600000] assms iso_examples bs be
        msPerDay_def)
  ultimately show ?thesis
    by simp
qed

text \<open>
  The upper bound for a date-only end, which parses as the UTC midnight \<open>e\<close> of its
  date. Local midnight of that date is \<open>e - tzOffset rt\<close>. East of UTC and in UTC the
  bound is the last millisecond of that local date; west of UTC it is the last
  millisecond of the local date before.
\<close>

lemma endOfDay_midnight:
  assumes "msPerDay dvd e" and "- msPerDay < tzOffset rt" and "tzOffset rt < msPerDay"
  shows "endOfDay rt e = (if tzOffset rt < 0 then e - tzOffset rt - 1
                          else e - tzOffset rt + (msPerDay - 1))"
proof -
  from assms(1) obtain j where e: "e = 86400000 * j"
    by (auto simp: dvd_def msPerDay_def)
  define q where "q = (e + tzOffset rt) div 86400000"
  define r where "r = (e + tzOffset rt) mod 86400000"
  have qr: "e + tzOffset rt = q * 86400000 + r"
    by (simp add: q_def r_def)
  have r: "0 \<le> r" "r < 86400000"
    by (simp_all add: r_def)
  have q: "q = (if tzOffset rt < 0 then j - 1 else j)"
    using qr r assms(2,3) unfolding e msPerDay_def by (auto split: if_splits)
  have "endOfDay rt e = q * 86400000 - tzOffset rt + 86399999"
    by (simp add: endOfDay_def startOfDay_def localDay_def msPerDay_def q_def)
  with q show ?thesis
    by (simp add: e msPerDay_def)
qed

text \<open>
  C5: in the custom period a date is in when it is at or after the start at 00:00 and at
  or before the end at 23:59:59.999. The source parses the end, a date-only string, as
  UTC midnight and then sets the hours in local time. West of UTC that midnight is the
  evening before, so the upper bound is the end of the day before: three hours behind
  UTC, the end 2024-01-31 becomes 2024-01-31 02:59:59.999 UTC, and a date of noon UTC
  on 2024-01-31 (09:00 local time) is left out, although it is before 23:59:59.999 of
  2024-01-31 in UTC (the fifth conjunct) and in local time (the sixth).
\<close>

theorem period_filter_end_day_cut:
  "isInPeriod saoPaulo january2024 (Some ''2024-01-31T12:00:00.000Z'') = False \<and>
   parseDate saoPaulo ''2024-01-31T12:00:00.000Z'' = Some 1706702400000 \<and>
   boundDate saoPaulo (period_end january2024) = Some 1706659200000 \<and>
   endOfDay saoPaulo 1706659200000 = 1706669999999 \<and>
   (1706702400000 :: int) \<le> 1706659200000 + (msPerDay - 1) \<and>
   (1706702400000 :: int) \<le> 1706659200000 - tzOffset saoPaulo + (msPerDay - 1)"
  by (simp add: iso_examples isInPeriod_def saoPaulo_def january2024_def boundDate_def
      endOfDay_def startOfDay_def localDay_def msPerDay_def)

section \<open>Properties of the Monthly Aggregator\<close>
























section \<open>Properties of the Financial Metrics Reducer\<close>



lemma set_insertBy: "set (insertBy le x ys) = insert x (set ys)"
  by (induction ys) auto

lemma set_sortBy: "set (sortBy le xs) = set xs"
  unfolding sortBy_def by (induction xs) (simp_all add: set_insertBy)

lemma length_insertBy: "length (insertBy le x ys) = Suc (length ys)"
  by (induction ys) auto

lemma length_sortBy: "length (sortBy le xs) = length xs"
  unfolding sortBy_def by (induction xs) (simp_all add: length_insertBy)




section \<open>Properties of the Day Bucketer\<close>

lemma sorted_insertBy:
  assumes total: "\<And>a b. le a b \<or> le b a"
    and trans: "\<And>a b c. le a b \<Longrightarrow> le b c \<Longrightarrow> le a c"
    and "sorted_wrt le ys"
  shows "sorted_wrt le (insertBy le x ys)"
  using assms(3)
proof (induction ys)
  case Nil
  then show ?case
    by simp
next
  case (Cons y ys)
  show ?case
  proof (cases "le x y")
    case True
    with Cons.prems show ?thesis
      by (auto intro: trans)
  next
    case False
    with total have "le y x"
      by blast
    with Cons False show ?thesis
      by (auto simp: set_insertBy)
  qed
qed

lemma sorted_sortBy:
  assumes total: "\<And>a b. le a b \<or> le b a"
    and trans: "\<And>a b c. le a b \<Longrightarrow> le b c \<Longrightarrow> le a c"
  shows "sorted_wrt le (sortBy le xs)"
  unfolding sortBy_def
  by (induction xs) (simp_all add: sorted_insertBy [OF total trans])

text \<open>The comparator is not positive exactly on the pairs in \<open>dayOrder\<close>.\<close>

lemma eventCompare_le: "(eventCompare num collate a b \<le> 0) = dayOrder num collate a b"
  by (auto simp: eventCompare_def dayOrder_def localeCompare_def Let_def)

lemma dayOrder_total: "dayOrder num collate a b \<or> dayOrder num collate b a"
  by (auto simp: dayOrder_def)

lemma dayOrder_trans:
  "dayOrder num collate a b \<Longrightarrow> dayOrder num collate b c \<Longrightarrow> dayOrder num collate a c"
  by (auto simp: dayOrder_def)

lemma sorted_bucket:
  "sorted_wrt (dayOrder num collate) (sortBy (\<lambda>a b. eventCompare num collate a b \<le> 0) l)"
  unfolding eventCompare_le
  by (rule sorted_sortBy) (rule dayOrder_total, erule dayOrder_trans, assumption)

lemma map_of_mapSet: "map_of (mapSet k v m) k' = (if k' = k then Some v else map_of m k')"
  by (induction m) auto

lemma keys_mapSet:
  "map fst (mapSet k v m) = (if k \<in> fst ` set m then map fst m else map fst m @ [k])"
  by (induction m) auto

lemma distinct_mapSet: "distinct (map fst m) \<Longrightarrow> distinct (map fst (mapSet k v m))"
  by (simp add: keys_mapSet)

text \<open>
  After the first loop the map has one entry per day that has an event, and the entry
  holds the events of that day in the order of the list.
\<close>

lemma buckets_invariant:
  "distinct (map fst (foldl addToDay [] evs)) \<and>
   (\<forall>k. map_of (foldl addToDay [] evs) k =
        (if filter (\<lambda>ev. dayKey ev = Some k) evs = [] then None
         else Some (filter (\<lambda>ev. dayKey ev = Some k) evs)))"
proof (induction evs rule: rev_induct)
  case Nil
  then show ?case
    by simp
next
  case (snoc ev evs)
  let ?m = "foldl addToDay [] evs"
  show ?case
  proof (cases "dayKey ev")
    case None
    then have "addToDay ?m ev = ?m"
      by (auto simp: addToDay_def dayKey_def split: option.splits if_splits)
    with snoc None show ?thesis
      by simp
  next
    case (Some k)
    then have step:
      "addToDay ?m ev = mapSet k ((case map_of ?m k of Some l \<Rightarrow> l | None \<Rightarrow> []) @ [ev]) ?m"
      by (auto simp: addToDay_def dayKey_def split: option.splits if_splits)
    show ?thesis
      using snoc Some
      by (auto simp: step distinct_mapSet map_of_mapSet)
  qed
qed

lemma bucket_of_day:
  assumes "(k, l) \<in> set (eventsByDay num collate evs)"
  shows "l = sortBy (\<lambda>a b. eventCompare num collate a b \<le> 0)
               (filter (\<lambda>ev. dayKey ev = Some k) evs)
         \<and> filter (\<lambda>ev. dayKey ev = Some k) evs \<noteq> []"
proof -
  from assms obtain l0 where l0: "(k, l0) \<in> set (foldl addToDay [] evs)"
    and l: "l = sortBy (\<lambda>a b. eventCompare num collate a b \<le> 0) l0"
    by (auto simp: eventsByDay_def)
  from buckets_invariant [of evs]
  have d: "distinct (map fst (foldl addToDay [] evs))"
    and inv: "map_of (foldl addToDay [] evs) k =
        (if filter (\<lambda>ev. dayKey ev = Some k) evs = [] then None
         else Some (filter (\<lambda>ev. dayKey ev = Some k) evs))"
    by blast+
  from d l0 have "map_of (foldl addToDay [] evs) k = Some l0"
    by simp
  with inv have "l0 = filter (\<lambda>ev. dayKey ev = Some k) evs
                 \<and> filter (\<lambda>ev. dayKey ev = Some k) evs \<noteq> []"
    by (simp split: if_splits)
  with l show ?thesis
    by simp
qed

text \<open>Every event with a date is in the bucket of its day.\<close>

lemma bucket_covers:
  assumes "ev \<in> set evs" and "eventDate ev = Some k" and "k \<noteq> []"
  shows "\<exists>l. (k, l) \<in> set (eventsByDay num collate evs) \<and> ev \<in> set l"
proof -
  let ?day = "filter (\<lambda>ev. dayKey ev = Some k) evs"
  from assms have in_day: "ev \<in> set ?day"
    by (simp add: dayKey_def)
  then have ne: "?day \<noteq> []"
    by (auto simp: filter_empty_conv)
  from buckets_invariant [of evs] ne have "map_of (foldl addToDay [] evs) k = Some ?day"
    by simp
  then have "(k, ?day) \<in> set (foldl addToDay [] evs)"
    by (rule map_of_SomeD)
  then have "(k, sortBy (\<lambda>a b. eventCompare num collate a b \<le> 0) ?day)
               \<in> set (eventsByDay num collate evs)"
    by (force simp: eventsByDay_def)
  moreover have "ev \<in> set (sortBy (\<lambda>a b. eventCompare num collate a b \<le> 0) ?day)"
    using in_day by (simp only: set_sortBy)
  ultimately show ?thesis
    by blast
qed

lemma example_buckets:
  "eventsByDay plainNumber (\<lambda>s. s) [evBea, evCarla, evDora, evAna]
     = [(''2024-03-10'', [evCarla, evAna, evBea]), (''2024-03-11'', [evDora])]"
  by (simp add: eventsByDay_def addToDay_def sortBy_def eventCompare_def toMinutes_def
      localeCompare_def nameOf_def plainNumber_def numberOfDigits_def digitValue_def
      evBea_def evCarla_def evDora_def evAna_def calendarEvent_def bareContract_def Let_def)

lemma example_letters:
  "eventsByDay plainNumber letterKey [evZoe, evUpperAna, evLowerBea, evLowerAna]
     = [(''2024-03-10'', [evLowerAna, evUpperAna, evLowerBea, evZoe])]"
  by (simp add: eventsByDay_def addToDay_def sortBy_def eventCompare_def toMinutes_def
      localeCompare_def nameOf_def plainNumber_def numberOfDigits_def digitValue_def
      letterKey_def lowerOf_def evZoe_def evUpperAna_def evLowerBea_def evLowerAna_def
      calendarEvent_def bareContract_def Let_def)

text \<open>
  C7, as stated: events at the same time are in ascending lexicographic order of client
  name. The source compares names with \<^verbatim>\<open>localeCompare\<close>, which follows the collation of
  the locale and not the order of the characters: with a collation that puts letters
  before case, \<open>bea\<close> comes before \<open>Zoe\<close> in the bucket, at the same time of day, although
  \<open>Zoe\<close> is before \<open>bea\<close> lexicographically.
\<close>

theorem events_by_day_lexicographic_counterexample:
  "eventsByDay plainNumber letterKey [evZoe, evUpperAna, evLowerBea, evLowerAna]
     = [(''2024-03-10'', [evLowerAna, evUpperAna, evLowerBea, evZoe])] \<and>
   toMinutes plainNumber (eventTime evLowerBea) = toMinutes plainNumber (eventTime evZoe) \<and>
   nameOf evLowerBea = ''bea'' \<and> nameOf evZoe = ''Zoe'' \<and>
   nameOf evZoe < nameOf evLowerBea"
proof -
  have names: "nameOf evLowerBea = ''bea''" "nameOf evZoe = ''Zoe''"
    by (simp_all add: nameOf_def evZoe_def evLowerBea_def calendarEvent_def bareContract_def)
  have times: "eventTime evLowerBea = eventTime evZoe"
    by (simp add: evZoe_def evLowerBea_def calendarEvent_def bareContract_def)
  have "(''Zoe'' :: string) < ''bea''"
    by simp
  with names times example_letters show ?thesis
    by simp
qed

text \<open>
  C7, amended: for every event list, every event with a date is in the bucket of its
  day, a bucket holds exactly the events of its day, and within a bucket the events are
  in ascending order of time of day (\<^verbatim>\<open>HH:mm\<close> in minutes, a missing time counting as
  0), events at the same time being in the order of \<^verbatim>\<open>localeCompare\<close> on the client
  names: for an event before another at the same time, \<^verbatim>\<open>localeCompare\<close> of the two names
  is not positive.
\<close>

theorem events_by_day_sorted:
  "(\<forall>(k, l) \<in> set (eventsByDay num collate evs).
      sorted_wrt (\<lambda>a b. toMinutes num (eventTime a) < toMinutes num (eventTime b)
                   \<or> (toMinutes num (eventTime a) = toMinutes num (eventTime b)
                       \<and> localeCompare collate (nameOf a) (nameOf b) \<le> 0)) l
      \<and> set l = {ev \<in> set evs. eventDate ev = Some k}
      \<and> length l = length (filter (\<lambda>ev. eventDate ev = Some k) evs))
   \<and> (\<forall>ev \<in> set evs. \<forall>k. eventDate ev = Some k \<and> k \<noteq> []
         \<longrightarrow> (\<exists>l. (k, l) \<in> set (eventsByDay num collate evs) \<and> ev \<in> set l))"
proof (intro conjI ballI allI impI; (elim conjE)?)
  fix p
  assume p: "p \<in> set (eventsByDay num collate evs)"
  obtain k l where kl: "p = (k, l)"
    by (cases p)
  from p bucket_of_day [of k l num collate evs]
  have l: "l = sortBy (\<lambda>a b. eventCompare num collate a b \<le> 0)
                 (filter (\<lambda>ev. dayKey ev = Some k) evs)"
    and ne: "filter (\<lambda>ev. dayKey ev = Some k) evs \<noteq> []"
    unfolding kl by blast+
  from ne have k: "k \<noteq> []"
    by (auto simp: filter_empty_conv dayKey_def split: option.splits if_splits)
  then have key: "\<And>ev. (dayKey ev = Some k) = (eventDate ev = Some k)"
    by (auto simp: dayKey_def split: option.splits)
  have cmp: "\<And>a b. (localeCompare collate (nameOf a) (nameOf b) \<le> 0)
                     = (collate (nameOf a) \<le> collate (nameOf b))"
    by (auto simp: localeCompare_def)
  have "sorted_wrt (dayOrder num collate) l"
    unfolding l by (rule sorted_bucket)
  then have "sorted_wrt (\<lambda>a b. toMinutes num (eventTime a) < toMinutes num (eventTime b)
                   \<or> (toMinutes num (eventTime a) = toMinutes num (eventTime b)
                       \<and> localeCompare collate (nameOf a) (nameOf b) \<le> 0)) l
      \<and> set l = {ev \<in> set evs. eventDate ev = Some k}
      \<and> length l = length (filter (\<lambda>ev. eventDate ev = Some k) evs)"
    unfolding dayOrder_def cmp using l by (auto simp: set_sortBy length_sortBy key)
  then show "case p of (k, l) \<Rightarrow>
      sorted_wrt (\<lambda>a b. toMinutes num (eventTime a) < toMinutes num (eventTime b)
                   \<or> (toMinutes num (eventTime a) = toMinutes num (eventTime b)
                       \<and> localeCompare collate (nameOf a) (nameOf b) \<le> 0)) l
      \<and> set l = {ev \<in> set evs. eventDate ev = Some k}
      \<and> length l = length (filter (\<lambda>ev. eventDate ev = Some k) evs)"
    by (simp only: kl prod.case)
next
  fix ev k
  assume "ev \<in> set evs" and "eventDate ev = Some k" and "k \<noteq> []"
  then show "\<exists>l. (k, l) \<in> set (eventsByDay num collate evs) \<and> ev \<in> set l"
    by (rule bucket_covers)
qed

theorem events_by_day_sorted_witness:
  "eventsByDay plainNumber letterKey [evZoe, evUpperAna, evLowerBea, evLowerAna]
     = [(''2024-03-10'', [evLowerAna, evUpperAna, evLowerBea, evZoe])] \<and>
   sorted_wrt (\<lambda>a b. toMinutes plainNumber (eventTime a) < toMinutes plainNumber (eventTime b)
                \<or> (toMinutes plainNumber (eventTime a) = toMinutes plainNumber (eventTime b)
                    \<and> localeCompare letterKey (nameOf a) (nameOf b) \<le> 0))
     [evLowerAna, evUpperAna, evLowerBea, evZoe] \<and>
   eventsByDay plainNumber (\<lambda>s. s) [evBea, evCarla, evDora, evAna]
     = [(''2024-03-10'', [evCarla, evAna, evBea]), (''2024-03-11'', [evDora])] \<and>
   sorted_wrt (\<lambda>a b. toMinutes plainNumber (eventTime a) < toMinutes plainNumber (eventTime b)
                \<or> (toMinutes plainNumber (eventTime a) = toMinutes plainNumber (eventTime b)
                    \<and> localeCompare (\<lambda>s. s) (nameOf a) (nameOf b) \<le> 0))
     [evCarla, evAna, evBea]"
  using events_by_day_sorted [of plainNumber letterKey
          "[evZoe, evUpperAna, evLowerBea, evLowerAna]"]
    events_by_day_sorted [of plainNumber "\<lambda>s. s" "[evBea, evCarla, evDora, evAna]"]
  by (simp only: example_letters example_buckets) simp

section \<open>Properties of the event summary\<close>

lemma summary_fold:
  "foldl summaryStep acc evs =
     \<lparr>pending = pending acc + length (filter (\<lambda>ev. depositPaid ev \<noteq> Some True) evs),
      editing = editing acc
        + length (filter (\<lambda>ev. depositPaid ev = Some True \<and> finalPaymentPaid ev = Some True
                              \<and> eventCompleted ev \<noteq> Some True) evs),
      completed = completed acc
        + length (filter (\<lambda>ev. depositPaid ev = Some True \<and> finalPaymentPaid ev = Some True
                              \<and> eventCompleted ev = Some True) evs)\<rparr>"
  by (induction evs arbitrary: acc) (simp_all add: summaryStep_def)

text \<open>The three buckets and the events left out are four disjoint classes.\<close>

lemma four_way_count:
  "length (filter (\<lambda>ev. depositPaid ev \<noteq> Some True) evs)
   + length (filter (\<lambda>ev. depositPaid ev = Some True \<and> finalPaymentPaid ev = Some True
                         \<and> eventCompleted ev \<noteq> Some True) evs)
   + length (filter (\<lambda>ev. depositPaid ev = Some True \<and> finalPaymentPaid ev = Some True
                         \<and> eventCompleted ev = Some True) evs)
   + length (filter (\<lambda>ev. depositPaid ev = Some True \<and> finalPaymentPaid ev \<noteq> Some True) evs)
   = length evs"
  by (induction evs) auto

lemma summary_fields:
  "es_pending (eventSummary evs) = length (filter (\<lambda>ev. depositPaid ev \<noteq> Some True) evs)"
  "es_editing (eventSummary evs)
     = length (filter (\<lambda>ev. depositPaid ev = Some True \<and> finalPaymentPaid ev = Some True
                           \<and> eventCompleted ev \<noteq> Some True) evs)"
  "es_completed (eventSummary evs)
     = length (filter (\<lambda>ev. depositPaid ev = Some True \<and> finalPaymentPaid ev = Some True
                           \<and> eventCompleted ev = Some True) evs)"
  "es_total (eventSummary evs)
     = es_pending (eventSummary evs) + es_editing (eventSummary evs)
       + es_completed (eventSummary evs)"
  "es_allTotal (eventSummary evs) = length evs"
  by (simp_all add: eventSummary_def Let_def summary_fold)

text \<open>
  C10: in the calendar event summary every filtered event is counted in at most one of
  pending, editing and completed, and an event whose deposit is paid and whose final
  payment is not is counted in none. So pending + editing + completed, plus the number of
  such events, is the number of filtered events: the sum is at most that number, and
  below it as soon as one such event exists.
\<close>

theorem summary_counts:
  "es_total (eventSummary evs)
     = es_pending (eventSummary evs) + es_editing (eventSummary evs)
       + es_completed (eventSummary evs) \<and>
   es_allTotal (eventSummary evs) = length evs \<and>
   es_total (eventSummary evs)
     + length (filter (\<lambda>ev. depositPaid ev = Some True \<and> finalPaymentPaid ev \<noteq> Some True) evs)
     = es_allTotal (eventSummary evs) \<and>
   es_total (eventSummary evs) \<le> es_allTotal (eventSummary evs) \<and>
   ((\<exists>ev \<in> set evs. depositPaid ev = Some True \<and> finalPaymentPaid ev \<noteq> Some True)
      \<longrightarrow> es_total (eventSummary evs) < es_allTotal (eventSummary evs))"
proof -
  let ?u = "filter (\<lambda>ev. depositPaid ev = Some True \<and> finalPaymentPaid ev \<noteq> Some True) evs"
  have sum: "es_total (eventSummary evs) + length ?u = es_allTotal (eventSummary evs)"
    using four_way_count [of evs] by (simp add: summary_fields)
  have pos: "0 < length ?u"
    if "\<exists>ev \<in> set evs. depositPaid ev = Some True \<and> finalPaymentPaid ev \<noteq> Some True"
    using that by (simp add: filter_empty_conv)
  from sum have le: "es_total (eventSummary evs) \<le> es_allTotal (eventSummary evs)"
    by linarith
  from sum pos
  have lt: "(\<exists>ev \<in> set evs. depositPaid ev = Some True \<and> finalPaymentPaid ev \<noteq> Some True)
              \<longrightarrow> es_total (eventSummary evs) < es_allTotal (eventSummary evs)"
    by linarith
  from sum le lt show ?thesis
    by (simp add: summary_fields(4,5))
qed

lemma example_summary:
  "eventSummary
     [flagged None None None, flagged (Some True) None None,
      flagged (Some True) (Some True) None, flagged (Some True) (Some True) (Some True),
      flagged (Some False) (Some True) (Some True)]
   = \<lparr>es_pending = 2, es_editing = 1, es_completed = 1, es_allTotal = 5, es_total = 4\<rparr>"
  by (simp add: eventSummary_def summaryStep_def flagged_def bareContract_def Let_def)

theorem summary_counts_witness:
  "flagged (Some True) None None
     \<in> set [flagged None None None, flagged (Some True) None None,
            flagged (Some True) (Some True) None, flagged (Some True) (Some True) (Some True),
            flagged (Some False) (Some True) (Some True)] \<and>
   depositPaid (flagged (Some True) None None) = Some True \<and>
   finalPaymentPaid (flagged (Some True) None None) \<noteq> Some True \<and>
   es_total (eventSummary
     [flagged None None None, flagged (Some True) None None,
      flagged (Some True) (Some True) None, flagged (Some True) (Some True) (Some True),
      flagged (Some False) (Some True) (Some True)]) = 4 \<and>
   es_total (eventSummary
     [flagged None None None, flagged (Some True) None None,
      flagged (Some True) (Some True) None, flagged (Some True) (Some True) (Some True),
      flagged (Some False) (Some True) (Some True)])
   < es_allTotal (eventSummary
     [flagged None None None, flagged (Some True) None None,
      flagged (Some True) (Some True) None, flagged (Some True) (Some True) (Some True),
      flagged (Some False) (Some True) (Some True)])"
proof -
  let ?evs = "[flagged None None None, flagged (Some True) None None,
      flagged (Some True) (Some True) None, flagged (Some True) (Some True) (Some True),
      flagged (Some False) (Some True) (Some True)]"
  have f: "depositPaid (flagged (Some True) None None) = Some True"
    "finalPaymentPaid (flagged (Some True) None None) \<noteq> Some True"
    by (simp_all add: flagged_def bareContract_def)
  have m: "flagged (Some True) None None \<in> set ?evs"
    by simp
  from m f have h: "\<exists>ev \<in> set ?evs. depositPaid ev = Some True \<and> finalPaymentPaid ev \<noteq> Some True"
    by blast
  from summary_counts [of ?evs] h
  have "es_total (eventSummary ?evs) < es_allTotal (eventSummary ?evs)"
    by blast
  moreover have "es_total (eventSummary ?evs) = 4"
    by (simp add: example_summary)
  ultimately show ?thesis
    using m f by blast
qed

section \<open>Properties of double-precision arithmetic\<close>

lemmas double_defs = roundDouble_def ulpExponent_def binade_def scaleBy_def halfEven_def
  dadd_def dsub_def Let_def compute_bitlen

lemma halfEven_of_int: "halfEven (of_int z) = z"
  by (simp add: halfEven_def)

text \<open>Whole numbers below \<open>2 ^ 53\<close> are numbers of the machine: rounding leaves them.\<close>

lemma roundDouble_of_int:
  assumes "\<bar>n\<bar> < 2 ^ 53"
  shows "roundDouble (of_int n) = of_int n"
proof (cases "n = 0")
  case True
  then show ?thesis
    by (simp add: double_defs)
next
  case False
  then have pos: "0 < \<bar>n\<bar>"
    by simp
  then have "1 \<le> \<bar>n\<bar>"
    by linarith
  then have "(1::real) \<le> of_int \<bar>n\<bar>"
    by (simp only: of_int_1_le_iff)
  then have one: "(1::real) \<le> \<bar>of_int n\<bar>"
    by (simp only: of_int_abs)
  have fl: "\<lfloor>\<bar>of_int n :: real\<bar>\<rfloor> = \<bar>n\<bar>"
    by (simp only: floor_of_int flip: of_int_abs)
  from bitlen_bounds [OF pos] have lo: "2 ^ nat (bitlen \<bar>n\<bar> - 1) \<le> \<bar>n\<bar>"
    by simp
  with assms have "(2::int) ^ nat (bitlen \<bar>n\<bar> - 1) < 2 ^ 53"
    by linarith
  then have "nat (bitlen \<bar>n\<bar> - 1) < 53"
    by (rule power_less_imp_less_exp [rotated]) simp
  then have hi: "bitlen \<bar>n\<bar> \<le> 53"
    by linarith
  have ge: "1 \<le> bitlen \<bar>n\<bar>"
    using pos bitlen_eq_zero_iff [of "\<bar>n\<bar>"] bitlen_nonneg [of "\<bar>n\<bar>"] by linarith
  define j where "j = nat (53 - bitlen \<bar>n\<bar>)"
  have k: "ulpExponent (of_int n) = - int j"
    using hi ge one by (simp add: ulpExponent_def binade_def fl j_def)
  have "scaleBy (int j) (of_int n) = of_int (n * 2 ^ j)"
    by (simp add: scaleBy_def)
  then have "halfEven (scaleBy (- ulpExponent (of_int n)) (of_int n)) = n * 2 ^ j"
    by (simp only: k minus_minus halfEven_of_int)
  then show ?thesis
    by (simp add: roundDouble_def k scaleBy_def)
qed

text \<open>So sums and differences of whole amounts are exact while they stay below \<open>2 ^ 53\<close>.\<close>

lemma whole_round_trip:
  assumes "s \<in> \<int>" and "a \<in> \<int>" and "0 \<le> s" and "0 < a" and "s + a < 2 ^ 53"
  shows "dadd s a = s + a" and "dsub (dadd s a) a = s"
proof -
  from assms(1,2) obtain m n where s: "s = of_int m" and a: "a = of_int n"
    by (auto elim!: Ints_cases)
  from assms(3) have m: "0 \<le> m"
    unfolding s by simp
  from assms(4) have n: "0 < n"
    unfolding a by simp
  have "real_of_int (m + n) < real_of_int (2 ^ 53)"
    using assms(5) unfolding s a by simp
  then have "m + n < 2 ^ 53"
    by (simp only: of_int_less_iff)
  with m n have b: "0 \<le> m" "0 < n" "m + n < 2 ^ 53"
    by simp_all
  have "roundDouble (of_int (m + n)) = of_int (m + n)"
    using b by (intro roundDouble_of_int) simp
  then show sum: "dadd s a = s + a"
    by (simp add: dadd_def s a)
  have "roundDouble (of_int m) = of_int m"
    using b by (intro roundDouble_of_int) simp
  then show "dsub (dadd s a) a = s"
    unfolding sum dsub_def by (simp add: s)
qed

text \<open>
  The numbers nearest to 0.1 and 0.2, and what adding and taking away 0.2 does to 0.1: the
  result is two units in the last place above.
\<close>

lemma cents_round_trip:
  "tenCents = 7205759403792794 / 2 ^ 56"
  "twentyCents = 7205759403792794 / 2 ^ 55"
  "dadd tenCents twentyCents = 5404319552844596 / 2 ^ 54"
  "max 0 (dsub (dadd tenCents twentyCents) twentyCents) = 7205759403792796 / 2 ^ 56"
  by (simp_all add: tenCents_def twentyCents_def double_defs)

lemma twentyCents_pos: "0 < twentyCents"
  by (simp add: cents_round_trip(2))

lemma roundDouble_numeral:
  "numeral n < (2 ^ 53 :: int) \<Longrightarrow> roundDouble (numeral n) = numeral n"
  using roundDouble_of_int [of "numeral n"] by simp

lemma whole_examples:
  "dadd 600 200 = 800" "dsub 800 200 = 600" "dsub 1000 600 = 400" "dsub 1000 800 = 200"
  by (simp_all add: dadd_def dsub_def roundDouble_numeral)

section \<open>Properties of the Budget Envelope Ledger\<close>

lemma envelopes_load:
  "envelopes (loadBudgetData reachable st view) = map viewOf (budget_envelopes st)"
  by (simp add: loadBudgetData_def reachable_def Let_def viewOf_def case_prod_unfold)

lemma transactions_load:
  "transactions (loadBudgetData reachable st view) = budget_transactions st"
  by (simp add: loadBudgetData_def reachable_def Let_def)

lemma reachable_flags:
  "online reachable" "readsEnvelopes reachable" "readsTransactions reachable"
  "addDocOk reachable" "updateDocOk reachable" "deleteDocOk reachable"
  by (simp_all add: reachable_def)

lemma env_id_viewOf: "env_id (viewOf p) = fst p"
  by (simp add: viewOf_def)

lemma find_view:
  "find (\<lambda>e. env_id e = i) (map viewOf ds) = Some e \<Longrightarrow>
   \<exists>d. map_of ds i = Some d \<and> e = viewOf (i, d)"
  by (induction ds) (auto simp: env_id_viewOf split: if_splits)

lemma find_view_map_of:
  "find (\<lambda>e. env_id e = i) (map viewOf ds) = map_option (\<lambda>d. viewOf (i, d)) (map_of ds i)"
  by (induction ds) (auto simp: env_id_viewOf)

lemma updateSpent_Some:
  "map_of ds i = Some d \<Longrightarrow> \<exists>ds'. updateSpent i v ds = Some ds'"
  by (induction ds) (auto split: if_splits)

lemma map_of_updateSpent:
  "map_of ds i = Some d \<Longrightarrow> updateSpent i v ds = Some ds' \<Longrightarrow>
   map_of ds' i = Some (d\<lparr>doc_spent := v\<rparr>)"
  by (induction ds arbitrary: ds') (auto split: if_splits option.splits)

lemma updateSpent_again:
  "updateSpent i v ds = Some ds' \<Longrightarrow> updateSpent i w ds' = updateSpent i w ds"
  by (induction ds arbitrary: ds') (auto split: option.splits if_splits)

lemma updateSpent_same:
  "map_of ds i = Some d \<Longrightarrow> updateSpent i (doc_spent d) ds = Some ds"
  by (induction ds) (auto split: if_splits)

lemma find_snoc_fresh:
  "i \<notin> fst ` set ts \<Longrightarrow> find (\<lambda>t. fst t = i) (ts @ [(i, t)]) = Some (i, t)"
  by (induction ts) auto

lemma filter_fresh:
  "i \<notin> fst ` set ts \<Longrightarrow> filter (\<lambda>t. fst t \<noteq> i) ts = ts"
  by (induction ts) auto

text \<open>
  With the store within reach and a current view, the add writes the rounded sum and
  the delete writes back the rounded difference, floored at 0; nothing else changes.
\<close>

lemma add_then_delete_store:
  assumes view: "view0 = loadBudgetData reachable st0 noData"
    and env: "find (\<lambda>e. env_id e = eid) (envelopes view0) = Some e"
    and amount: "0 < amount" and eid: "eid \<noteq> []"
    and fresh: "newId \<notin> fst ` set (budget_transactions st0)"
  shows "\<exists>d ds1 ds2.
           map_of (budget_envelopes st0) eid = Some d \<and> e = viewOf (eid, d) \<and>
           updateSpent eid (dadd (spent e) amount) (budget_envelopes st0) = Some ds1 \<and>
           budget_envelopes
             (out_store (handleAddExpense reachable view0 st0 (Some amount) descr (Some eid)
                now newId)) = ds1 \<and>
           updateSpent eid (max 0 (dsub (dadd (spent e) amount) amount)) (budget_envelopes st0)
             = Some ds2 \<and>
           addThenDelete reachable reachable reachable view0 st0 amount descr eid now newId
             = st0\<lparr>budget_envelopes := ds2\<rparr>"
proof -
  let ?ds = "budget_envelopes st0"
  let ?v = "dadd (spent e) amount"
  let ?r = "max 0 (dsub ?v amount)"
  from env view have f: "find (\<lambda>e. env_id e = eid) (map viewOf ?ds) = Some e"
    by (simp add: envelopes_load)
  from find_view [OF f] obtain d where
    d: "map_of ?ds eid = Some d" and e: "e = viewOf (eid, d)"
    by blast
  from updateSpent_Some [OF d, of ?v] obtain ds1 where
    up: "updateSpent eid ?v ?ds = Some ds1"
    by blast
  from updateSpent_Some [OF d, of ?r] obtain ds2 where
    up2: "updateSpent eid ?r ?ds = Some ds2"
    by blast
  define label where "label = (if descr = [] then ''Gasto'' else descr)"
  let ?tx = "\<lparr>tx_date = now, tx_description = label, tx_category = env_name e,
             tx_type = Expense, tx_amount = amount, tx_envelopeId = Some eid\<rparr>"
  let ?st1 = "st0\<lparr>budget_transactions := budget_transactions st0 @ [(newId, ?tx)],
                 budget_envelopes := ds1\<rparr>"
  have add: "handleAddExpense reachable view0 st0 (Some amount) descr (Some eid) now newId
               = \<lparr>out_store = ?st1, out_reload = True\<rparr>"
    unfolding handleAddExpense_def label_def [symmetric]
    using env amount eid up by (simp add: Let_def reachable_flags)
  let ?view1 = "loadBudgetData reachable ?st1 view0"
  have d1: "map_of ds1 eid = Some (d\<lparr>doc_spent := ?v\<rparr>)"
    using d up by (rule map_of_updateSpent)
  have f1: "find (\<lambda>e. env_id e = eid) (envelopes ?view1) = Some (viewOf (eid, d\<lparr>doc_spent := ?v\<rparr>))"
    by (simp add: envelopes_load find_view_map_of d1)
  have t1: "find (\<lambda>t. fst t = newId) (transactions ?view1) = Some (newId, ?tx)"
    using fresh by (simp add: transactions_load find_snoc_fresh)
  have up3: "updateSpent eid ?r ds1 = Some ds2"
    using updateSpent_again [OF up, of ?r] up2 by simp
  have del: "handleDeleteTransaction reachable ?view1 ?st1 True newId
               = \<lparr>out_store = st0\<lparr>budget_envelopes := ds2\<rparr>, out_reload = True\<rparr>"
    using fresh eid up3
    by (simp add: handleDeleteTransaction_def Let_def f1 t1 truthy_def viewOf_def
        reachable_flags filter_fresh)
  have "addThenDelete reachable reachable reachable view0 st0 amount descr eid now newId
          = st0\<lparr>budget_envelopes := ds2\<rparr>"
    by (simp add: addThenDelete_def add del)
  with d e up up2 add show ?thesis
    by simp
qed


lemma shownEnvelope_map_of:
  "shownEnvelope st eid = map_option (\<lambda>d. viewOf (eid, d)) (map_of (budget_envelopes st) eid)"
  by (simp add: shownEnvelope_def envelopes_load find_view_map_of)

lemmas ledger_defs = addThenDelete_def handleAddExpense_def handleDeleteTransaction_def
  loadBudgetData_def shownEnvelope_def reachable_def noData_def truthy_def Let_def

lemma example_ledger:
  "shownEnvelope scenarioStore ''env1''
     = Some \<lparr>env_id = ''env1'', env_name = ''Equipo'', percentage = 40, allocated = 1000,
             spent = 600, available = 400\<rparr>"
  "shownEnvelope
     (out_store (handleAddExpense reachable (loadBudgetData reachable scenarioStore noData)
        scenarioStore (Some 200) ''lente'' (Some ''env1'') ''2024-01-31'' ''t1'')) ''env1''
     = Some \<lparr>env_id = ''env1'', env_name = ''Equipo'', percentage = 40, allocated = 1000,
             spent = 800, available = 200\<rparr>"
  by (simp_all add: ledger_defs scenarioStore_def whole_examples)

text \<open>
  C8, as stated for every envelope with \<open>spent \<ge> 0\<close> and every amount above 0: adding
  an expense and deleting the transaction created leaves \<open>spent\<close> as it was. With 0.10
  spent and an expense of 0.20, the store within reach throughout, the sum is rounded up
  and \<open>spent\<close> comes back two units in the last place higher. With 600 spent and an
  expense of 200, when the load after the add cannot read the envelopes, the delete
  finds no envelope in the view and \<open>spent\<close> stays at 800. And when the view shows 600
  spent while the store has 700, \<open>spent\<close> ends at 600.
\<close>

theorem add_then_delete_counterexample:
  "map_option spent (shownEnvelope tenthStore ''env1'') = Some (7205759403792794 / 2 ^ 56) \<and>
   map_option spent
     (shownEnvelope
        (addThenDelete reachable reachable reachable
           (loadBudgetData reachable tenthStore noData) tenthStore twentyCents
           ''lente'' ''env1'' ''2024-01-31'' ''t1'') ''env1'')
     = Some (7205759403792796 / 2 ^ 56) \<and>
   map_option spent (shownEnvelope scenarioStore ''env1'') = Some 600 \<and>
   map_option spent
     (shownEnvelope
        (addThenDelete reachable (reachable\<lparr>readsEnvelopes := False\<rparr>) reachable
           (loadBudgetData reachable scenarioStore noData) scenarioStore 200
           ''lente'' ''env1'' ''2024-01-31'' ''t1'') ''env1'')
     = Some 800 \<and>
   map_option spent (shownEnvelope movedStore ''env1'') = Some 700 \<and>
   map_option spent
     (shownEnvelope
        (addThenDelete reachable reachable reachable
           (loadBudgetData reachable scenarioStore noData) movedStore 200
           ''lente'' ''env1'' ''2024-01-31'' ''t1'') ''env1'')
     = Some 600"
proof -
  have a0: "map_option spent (shownEnvelope tenthStore ''env1'') = Some tenCents"
    by (simp add: ledger_defs tenthStore_def)
  have a1: "map_option spent
     (shownEnvelope
        (addThenDelete reachable reachable reachable
           (loadBudgetData reachable tenthStore noData) tenthStore twentyCents
           ''lente'' ''env1'' ''2024-01-31'' ''t1'') ''env1'')
     = Some (max 0 (dsub (dadd tenCents twentyCents) twentyCents))"
    using twentyCents_pos by (simp add: ledger_defs tenthStore_def)
  have b: "map_option spent (shownEnvelope scenarioStore ''env1'') = Some 600"
    "map_option spent
     (shownEnvelope
        (addThenDelete reachable (reachable\<lparr>readsEnvelopes := False\<rparr>) reachable
           (loadBudgetData reachable scenarioStore noData) scenarioStore 200
           ''lente'' ''env1'' ''2024-01-31'' ''t1'') ''env1'')
     = Some 800"
    by (simp_all add: ledger_defs scenarioStore_def whole_examples)
  have c: "map_option spent (shownEnvelope movedStore ''env1'') = Some 700"
    "map_option spent
     (shownEnvelope
        (addThenDelete reachable reachable reachable
           (loadBudgetData reachable scenarioStore noData) movedStore 200
           ''lente'' ''env1'' ''2024-01-31'' ''t1'') ''env1'')
     = Some 600"
    by (simp_all add: ledger_defs scenarioStore_def movedStore_def whole_examples)
  note a0 [unfolded cents_round_trip(1)] a1 [unfolded cents_round_trip(4)]
  with b c show ?thesis
    by blast
qed

text \<open>
  C8, amended: for an envelope with \<open>spent \<ge> 0\<close> and an expense amount above 0, with
  every read and write succeeding, the view current before the add and loaded again
  before the delete, and the new transaction under an id no transaction has: the add
  leaves \<open>spent\<close> at the rounded sum, and the delete of the transaction created leaves it
  at the rounded difference of that sum and the amount, floored at 0. When that round
  trip gives \<open>spent\<close> back, the store and with it the envelope's \<open>spent\<close> and available
  balance are as before; it does for whole amounts with \<open>spent + amount\<close> below \<open>2 ^ 53\<close>.
  The sum is to stay in the range of the finite numbers, where the rounding is modelled.
\<close>

theorem add_then_delete_restores:
  assumes "view0 = loadBudgetData reachable st0 noData"
    and "find (\<lambda>e. env_id e = eid) (envelopes view0) = Some e"
    and "0 \<le> spent e" and "0 < amount" and "eid \<noteq> []"
    and "newId \<notin> fst ` set (budget_transactions st0)"
    and "spent e + amount < 2 ^ 1023"
  shows "map_option spent
           (shownEnvelope
              (out_store (handleAddExpense reachable view0 st0 (Some amount) descr (Some eid)
                 now newId)) eid)
           = Some (dadd (spent e) amount)
    \<and> map_option spent
          (shownEnvelope
             (addThenDelete reachable reachable reachable view0 st0 amount descr eid now newId)
             eid)
          = Some (max 0 (dsub (dadd (spent e) amount) amount))
    \<and> (dsub (dadd (spent e) amount) amount = spent e
         \<longrightarrow> addThenDelete reachable reachable reachable view0 st0 amount descr eid now newId
               = st0
             \<and> shownEnvelope
                 (addThenDelete reachable reachable reachable view0 st0 amount descr eid now
                    newId) eid = Some e)
    \<and> (spent e \<in> \<int> \<and> amount \<in> \<int> \<and> spent e + amount < 2 ^ 53
         \<longrightarrow> addThenDelete reachable reachable reachable view0 st0 amount descr eid now newId
               = st0
             \<and> shownEnvelope
                 (addThenDelete reachable reachable reachable view0 st0 amount descr eid now
                    newId) eid = Some e)"
proof -
  let ?final = "addThenDelete reachable reachable reachable view0 st0 amount descr eid now newId"
  let ?added = "out_store (handleAddExpense reachable view0 st0 (Some amount) descr (Some eid)
                  now newId)"
  let ?v = "dadd (spent e) amount"
  let ?r = "max 0 (dsub ?v amount)"
  from add_then_delete_store [OF assms(1,2,4,5,6), of descr now]
  obtain d ds1 ds2 where d: "map_of (budget_envelopes st0) eid = Some d"
    and e: "e = viewOf (eid, d)"
    and up1: "updateSpent eid ?v (budget_envelopes st0) = Some ds1"
    and added: "budget_envelopes ?added = ds1"
    and up2: "updateSpent eid ?r (budget_envelopes st0) = Some ds2"
    and final: "?final = st0\<lparr>budget_envelopes := ds2\<rparr>"
    by blast
  have s: "spent e = doc_spent d"
    by (simp add: e viewOf_def)
  have shown0: "shownEnvelope st0 eid = Some e"
    by (simp add: shownEnvelope_map_of d e)
  have 1: "map_option spent (shownEnvelope ?added eid) = Some ?v"
    using map_of_updateSpent [OF d up1]
    by (simp add: shownEnvelope_map_of added viewOf_def)
  have 2: "map_option spent (shownEnvelope ?final eid) = Some ?r"
    using map_of_updateSpent [OF d up2]
    by (simp add: shownEnvelope_map_of final viewOf_def)
  have 3: "?final = st0 \<and> shownEnvelope ?final eid = Some e"
    if rt: "dsub ?v amount = spent e"
  proof -
    from rt assms(3) have "?r = doc_spent d"
      by (simp add: s)
    with up2 updateSpent_same [OF d] have "ds2 = budget_envelopes st0"
      by simp
    then have "?final = st0"
      by (simp add: final)
    with shown0 show ?thesis
      by simp
  qed
  have 4: "?final = st0 \<and> shownEnvelope ?final eid = Some e"
    if w: "spent e \<in> \<int> \<and> amount \<in> \<int> \<and> spent e + amount < 2 ^ 53"
  proof -
    from w assms(3,4) have "dsub ?v amount = spent e"
      by (intro whole_round_trip(2)) simp_all
    then show ?thesis
      by (rule 3)
  qed
  from 1 2 3 4 show ?thesis
    by blast
qed

text \<open>
  The scenario of the specification: allocated 1000 and spent 600; after an expense of
  200 spent is 800 and 200 is available; after deleting it the store is as before, with
  600 spent and 400 available.
\<close>

theorem add_then_delete_restores_witness:
  "shownEnvelope
     (out_store (handleAddExpense reachable (loadBudgetData reachable scenarioStore noData)
        scenarioStore (Some 200) ''lente'' (Some ''env1'') ''2024-01-31'' ''t1'')) ''env1''
     = Some \<lparr>env_id = ''env1'', env_name = ''Equipo'', percentage = 40, allocated = 1000,
             spent = 800, available = 200\<rparr> \<and>
   addThenDelete reachable reachable reachable (loadBudgetData reachable scenarioStore noData)
     scenarioStore 200 ''lente'' ''env1'' ''2024-01-31'' ''t1'' = scenarioStore \<and>
   shownEnvelope
     (addThenDelete reachable reachable reachable (loadBudgetData reachable scenarioStore noData)
        scenarioStore 200 ''lente'' ''env1'' ''2024-01-31'' ''t1'') ''env1''
     = Some \<lparr>env_id = ''env1'', env_name = ''Equipo'', percentage = 40, allocated = 1000,
             spent = 600, available = 400\<rparr>"
proof -
  let ?e = "\<lparr>env_id = ''env1'', env_name = ''Equipo'', percentage = 40, allocated = 1000,
             spent = 600, available = 400\<rparr>"
  have f: "find (\<lambda>e. env_id e = ''env1'')
             (envelopes (loadBudgetData reachable scenarioStore noData)) = Some ?e"
    using example_ledger(1) by (simp add: shownEnvelope_def)
  have fresh: "''t1'' \<notin> fst ` set (budget_transactions scenarioStore)"
    by (simp add: scenarioStore_def)
  have w: "spent ?e \<in> \<int> \<and> (200::real) \<in> \<int> \<and> spent ?e + 200 < 2 ^ 53"
    by simp
  have "spent ?e + 200 < (2::real) ^ 10"
    by simp
  also have "(2::real) ^ 10 \<le> 2 ^ 1023"
    by (rule power_increasing) simp_all
  finally have range: "spent ?e + 200 < 2 ^ 1023" .
  from add_then_delete_restores
         [of "loadBudgetData reachable scenarioStore noData" scenarioStore "''env1''" ?e 200
            "''t1''" "''lente''" "''2024-01-31''", OF refl f _ _ _ fresh range] w
  have "addThenDelete reachable reachable reachable
          (loadBudgetData reachable scenarioStore noData) scenarioStore 200 ''lente'' ''env1''
          ''2024-01-31'' ''t1'' = scenarioStore
        \<and> shownEnvelope
            (addThenDelete reachable reachable reachable
               (loadBudgetData reachable scenarioStore noData) scenarioStore 200 ''lente''
               ''env1'' ''2024-01-31'' ''t1'') ''env1'' = Some ?e"
    by (simp add: whole_examples example_ledger(1))
  with example_ledger(2) show ?thesis
    by blast
qed

end
